theory Spec2Isabelle
  imports Complex_Main
begin

unbundle bit_operations_syntax

section \<open>Data model of \<open>hpp::agimus::Discretization\<close>\<close>

text \<open>
  The embedding follows \<open>src/discretization.cc\<close>.  Scalars (\<open>value_type\<close>, a C++
  \<open>double\<close>) are read as reals: the file only copies them and fills with zero; the
  one arithmetic operation, the product of the centre-of-mass jacobian with the velocity,
  is Eigen's and is a parameter of the model.  Dynamic vectors are lists,
  the fixed-size \<open>vector3_t\<close> is a triple.  The members of the class keep their names
  without the trailing underscore (\<open>path\<close> for \<open>path_\<close>, \<open>frames\<close> for \<open>frames_\<close>),
  and the members of the two target structures carry the prefix \<open>frame_\<close> or \<open>com_\<close>.
\<close>

type_synonym value_type = real
type_synonym vector_t = "value_type list"
type_synonym vector3_t = "value_type \<times> value_type \<times> value_type"

text \<open>
  What a call can raise.  \<open>logic_error\<close> and \<open>runtime_error\<close> are the two standard
  exceptions thrown in the file, with their message.  \<open>programming_error\<close> is the
  row view's report of a misuse (extraction before finalisation, a range added after it);
  \<open>out_of_range\<close> marks a read past the end of a vector, where the C++ has no defined
  behaviour (an Eigen assertion at best).
\<close>

datatype error =
    logic_error string
  | runtime_error string
  | programming_error
  | out_of_range

subsection \<open>Computation options\<close>

text \<open>
  Modelled from the spec: the declaration of \<open>enum ComputationOption\<close> (in
  \<open>hpp/agimus/discretization.hh\<close>) is not among the sources.  The mode is a bitmask over
  three bits, Position, Derivative and Acceleration, with a fourth named value equal to
  Position|Derivative.
\<close>

type_synonym ComputationOption = nat

text \<open>Modelled from the spec: the enumerator \<open>Position\<close> of the missing declaration, the
  first of the three bits.\<close>

definition Position :: ComputationOption where
  "Position = 1"

text \<open>Modelled from the spec: the enumerator \<open>Derivative\<close> of the missing declaration, the
  second bit.\<close>

definition Derivative :: ComputationOption where
  "Derivative = 2"

text \<open>Modelled from the spec: the enumerator \<open>Acceleration\<close> of the missing declaration,
  the third bit.\<close>

definition Acceleration :: ComputationOption where
  "Acceleration = 4"

text \<open>Modelled from the spec: the enumerator \<open>PositionAndDerivative\<close> of the missing
  declaration, the named value equal to Position|Derivative.\<close>

definition PositionAndDerivative :: ComputationOption where
  "PositionAndDerivative = Position OR Derivative"

subsection \<open>Transport: publishers and messages\<close>

text \<open>
  A \<open>ros::Publisher\<close> is either default-constructed (or shut down), or the result of
  \<open>advertise\<close> on a topic with a queue size and a latch flag.  The three message types
  of the file are \<open>dynamic_graph_bridge_msgs::Vector\<close>, \<open>geometry_msgs::Transform\<close>
  (translation, then rotation w, x, y, z) and \<open>geometry_msgs::Vector3\<close>.  A call
  \<open>p.publish (m)\<close> is recorded as the event \<open>Publish p m\<close>.
\<close>

datatype Publisher = NoPublisher | Advertised string nat bool

datatype message =
    Vector vector_t
  | Transform vector3_t "value_type \<times> value_type \<times> value_type \<times> value_type"
  | Vector3 value_type value_type value_type

datatype event = Publish Publisher message

datatype NodeHandle = NodeHandle

definition queue_size :: nat where
  "queue_size = 1000"

definition advertise :: "string \<Rightarrow> nat \<Rightarrow> bool \<Rightarrow> Publisher" where
  "advertise topic qs latch = Advertised topic qs latch"

subsection \<open>Row views\<close>

text \<open>
  Modelled from the spec: \<open>Eigen::RowBlockIndices\<close> (\<open>addRow\<close>, \<open>updateRows\<close>,
  \<open>nbIndices\<close>, \<open>rview\<close>) is declared outside the sources.  A row view is an ordered list
  of (offset, length) ranges over a source vector; adding a range appends it; the view is
  finalised once all ranges are added, after which extraction is valid; extraction gathers
  the selected rows in the order the ranges were added; the size is the total selected
  length.  Extraction before finalisation and adding a range after it are reported.
  A range that reaches past the end of the source vector is reported as \<open>out_of_range\<close>.
\<close>

record RowBlockIndices =
  ranges :: "(nat \<times> nat) list"
  finalized :: bool

text \<open>Modelled from the spec: the constructor \<open>Eigen::RowBlockIndices ()\<close>, missing from
  the sources; rebuilding starts a fresh view, with no range and not finalised.\<close>

definition RowBlockIndices_empty :: RowBlockIndices where
  "RowBlockIndices_empty = \<lparr>ranges = [], finalized = False\<rparr>"

text \<open>Modelled from the spec: \<open>RowBlockIndices::addRow\<close>, missing from the sources;
  it appends a selection range, and is reported on a finalised view.\<close>

definition addRow :: "nat \<Rightarrow> nat \<Rightarrow> RowBlockIndices \<Rightarrow> error + RowBlockIndices" where
  "addRow row len v =
     (if finalized v then Inl programming_error
      else Inr (v\<lparr>ranges := ranges v @ [(row, len)]\<rparr>))"

text \<open>Modelled from the spec: \<open>RowBlockIndices::updateRows\<close>, missing from the sources;
  it finalises the view (its template arguments are not interpreted).\<close>

definition updateRows :: "RowBlockIndices \<Rightarrow> RowBlockIndices" where
  "updateRows v = v\<lparr>finalized := True\<rparr>"

text \<open>Modelled from the spec: \<open>RowBlockIndices::nbIndices\<close>, missing from the sources;
  the total selected length.\<close>

definition nbIndices :: "RowBlockIndices \<Rightarrow> nat" where
  "nbIndices v = sum_list (map snd (ranges v))"

text \<open>A range lies inside a vector; the rows it selects.\<close>

definition in_range :: "'a list \<Rightarrow> nat \<times> nat \<Rightarrow> bool" where
  "in_range x r = (fst r + snd r \<le> length x)"

definition segment :: "'a list \<Rightarrow> nat \<times> nat \<Rightarrow> 'a list" where
  "segment x r = take (snd r) (drop (fst r) x)"

text \<open>Modelled from the spec: \<open>RowBlockIndices::rview\<close>, missing from the sources;
  it gathers the selected rows in the order the ranges were added, and is reported on a
  view that is not finalised.\<close>

definition rview :: "RowBlockIndices \<Rightarrow> vector_t \<Rightarrow> error + vector_t" where
  "rview v x =
     (if \<not> finalized v then Inl programming_error
      else if list_all (in_range x) (ranges v) then Inr (concat (map (segment x) (ranges v)))
      else Inl out_of_range)"

subsection \<open>The kinematic model and its joints\<close>

text \<open>
  \<open>joint->configurationSpace()\<close> is compared with four spaces of \<open>LiegroupSpace\<close>; every
  other space is a vector space or a rotation group here.
\<close>

datatype LiegroupSpace =
    LiegroupSpace_SE3
  | LiegroupSpace_R3xSO3
  | LiegroupSpace_SE2
  | LiegroupSpace_R2xSO2
  | LiegroupSpace_Rn nat
  | LiegroupSpace_SO2
  | LiegroupSpace_SO3

text \<open>
  A joint of the device, with the members \<open>setJointNames\<close> reads.  \<open>jointIndex\<close> is the
  member \<open>index ()\<close> of the joint, its position in the model and so in \<open>oMi\<close>; the file
  never reads it, and it serves to say which placement belongs to a joint.
\<close>

record Joint =
  jointIndex :: nat
  configurationSpace :: LiegroupSpace
  rankInConfiguration :: nat
  configSize :: nat
  rankInVelocity :: nat
  numberDof :: nat

record 'r SE3 =
  translation :: vector3_t
  rotation :: 'r

text \<open>The flags of \<open>hpp::pinocchio::Computation_t\<close> that the file passes on.\<close>

datatype Computation_t = pinocchio_COM | pinocchio_VELOCITY | pinocchio_COMPUTE_ALL

text \<open>
  The collaborators the file calls, taken as parameters: the device and its pinocchio
  model (joint and frame lookup), the forward-kinematics pass of \<open>DeviceSync\<close> giving the
  device data \<open>'d\<close>, the placements \<open>oMi\<close> and \<open>oMf\<close> read from it, Eigen's Euler-angle
  and quaternion conversions of a rotation \<open>'r\<close>, pinocchio's frame velocity, and the
  centre-of-mass computation behind a handle \<open>'h\<close> (its jacobian has three rows), and
  Eigen's product of such a jacobian with a vector, computed in double arithmetic.
  The lookups are total functions: what the device does with a name it has no joint for
  is not in the sources.
\<close>

record ('d, 'r, 'h) Device =
  getJointByName :: "string \<Rightarrow> Joint"
  existFrame :: "string \<Rightarrow> bool"
  getFrameId :: "string \<Rightarrow> nat"
  computeFramesForwardKinematics :: "vector_t \<Rightarrow> vector_t \<Rightarrow> 'd"
  oMi :: "'d \<Rightarrow> 'r SE3 list"
  oMf :: "'d \<Rightarrow> 'r SE3 list"
  eulerAngles :: "'r \<Rightarrow> nat \<Rightarrow> nat \<Rightarrow> nat \<Rightarrow> vector3_t"
  Quaternion :: "'r \<Rightarrow> value_type \<times> value_type \<times> value_type \<times> value_type"
  getFrameVelocity :: "'d \<Rightarrow> nat \<Rightarrow> vector_t"
  com_compute :: "'h \<Rightarrow> Computation_t \<Rightarrow> 'd \<Rightarrow> 'd"
  com_com :: "'h \<Rightarrow> 'd \<Rightarrow> vector3_t"
  com_jacobian :: "'h \<Rightarrow> 'd \<Rightarrow> vector_t \<times> vector_t \<times> vector_t"
  jacobian_product :: "vector_t \<times> vector_t \<times> vector_t \<Rightarrow> vector_t \<Rightarrow> vector3_t"

text \<open>The path: \<open>eval\<close> gives the configuration and a success flag, \<open>derivative\<close> the
  derivative of the given order.\<close>

record Path =
  eval :: "value_type \<Rightarrow> vector_t \<times> bool"
  derivative :: "value_type \<Rightarrow> nat \<Rightarrow> vector_t"

subsection \<open>Targets and the state of a Discretization\<close>

record FrameData =
  frame_index :: nat
  frame_option :: ComputationOption
  frame_pubQ :: Publisher
  frame_pubV :: Publisher

record 'h COM =
  com_handle :: 'h
  com_option :: ComputationOption
  com_pubQ :: Publisher
  com_pubV :: Publisher

record 'h Discretization =
  path :: "Path option"
  handle :: "NodeHandle option"
  topicPrefix :: string
  hasFreeflyer :: bool
  qView :: RowBlockIndices
  vView :: RowBlockIndices
  frames :: "FrameData list"
  coms :: "'h COM list"
  pubQ :: Publisher
  pubV :: Publisher
  pubA :: Publisher

text \<open>The constructors \<open>FrameData (index, option)\<close> and \<open>COM (c, option)\<close>: the two
  publishers are default-constructed.\<close>

definition FrameData_new :: "nat \<Rightarrow> ComputationOption \<Rightarrow> FrameData" where
  "FrameData_new index opt =
     \<lparr>frame_index = index, frame_option = opt, frame_pubQ = NoPublisher, frame_pubV = NoPublisher\<rparr>"

definition COM_new :: "'h \<Rightarrow> ComputationOption \<Rightarrow> 'h COM" where
  "COM_new c opt =
     \<lparr>com_handle = c, com_option = opt, com_pubQ = NoPublisher, com_pubV = NoPublisher\<rparr>"

section \<open>Operations\<close>

subsection \<open>\<open>setJointNames\<close>\<close>

definition isFloatingBase :: "Joint \<Rightarrow> bool" where
  "isFloatingBase joint =
     (configurationSpace joint = LiegroupSpace_SE3 \<or>
      configurationSpace joint = LiegroupSpace_R3xSO3 \<or>
      configurationSpace joint = LiegroupSpace_SE2 \<or>
      configurationSpace joint = LiegroupSpace_R2xSO2)"

fun setJointNames_loop ::
  "('d, 'r, 'h) Device \<Rightarrow> string list \<Rightarrow> 'h Discretization \<Rightarrow> error + 'h Discretization" where
  "setJointNames_loop dev [] s = Inr s"
| "setJointNames_loop dev (name # names) s =
     (let joint = getJointByName dev name in
      if isFloatingBase joint then setJointNames_loop dev names (s\<lparr>hasFreeflyer := True\<rparr>)
      else
        (case addRow (rankInConfiguration joint) (configSize joint) (qView s) of
           Inl e \<Rightarrow> Inl e
         | Inr qv \<Rightarrow>
            (case addRow (rankInVelocity joint) (numberDof joint) (vView s) of
               Inl e \<Rightarrow> Inl e
             | Inr vv \<Rightarrow> setJointNames_loop dev names (s\<lparr>qView := qv, vView := vv\<rparr>))))"

definition setJointNames ::
  "('d, 'r, 'h) Device \<Rightarrow> string list \<Rightarrow> 'h Discretization \<Rightarrow> error + 'h Discretization" where
  "setJointNames dev names s =
     (case setJointNames_loop dev names
             (s\<lparr>hasFreeflyer := False, qView := RowBlockIndices_empty,
                vView := RowBlockIndices_empty\<rparr>) of
        Inl e \<Rightarrow> Inl e
      | Inr s' \<Rightarrow> Inr (s'\<lparr>qView := updateRows (qView s'), vView := updateRows (vView s')\<rparr>))"

subsection \<open>Publishers of a target\<close>

definition COM_initPublishers :: "string \<Rightarrow> string \<Rightarrow> 'h COM \<Rightarrow> 'h COM" where
  "COM_initPublishers prefix name c =
     (let c1 = (if com_option c AND Position \<noteq> 0
                then c\<lparr>com_pubQ := advertise (prefix @ ''com/'' @ name) queue_size False\<rparr>
                else c)
      in if com_option c1 AND Derivative \<noteq> 0
         then c1\<lparr>com_pubV := advertise (prefix @ ''velocity/com/'' @ name) queue_size False\<rparr>
         else c1)"

definition FrameData_initPublishers :: "string \<Rightarrow> string \<Rightarrow> FrameData \<Rightarrow> FrameData" where
  "FrameData_initPublishers prefix name f =
     (let f1 = (if frame_option f AND Position \<noteq> 0
                then f\<lparr>frame_pubQ := advertise (prefix @ ''op_frame/'' @ name) queue_size False\<rparr>
                else f)
      in if frame_option f1 AND Derivative \<noteq> 0
         then f1\<lparr>frame_pubV :=
                   advertise (prefix @ ''velocity/op_frame/'' @ name) queue_size False\<rparr>
         else f1)"

subsection \<open>\<open>addCenterOfMass\<close>, \<open>addOperationalFrame\<close>, \<open>resetTopics\<close>\<close>

text \<open>
  The search loops of the two registration functions: the first target with the same key
  has the option merged in and its publishers initialised again, and the loop returns;
  \<open>None\<close> when no target has the key.
\<close>

fun addCenterOfMass_loop ::
  "string \<Rightarrow> string \<Rightarrow> 'h \<Rightarrow> ComputationOption \<Rightarrow> 'h COM list \<Rightarrow> 'h COM list option" where
  "addCenterOfMass_loop prefix name c opt [] = None"
| "addCenterOfMass_loop prefix name c opt (x # xs) =
     (if com_handle x = c
      then Some (COM_initPublishers prefix name (x\<lparr>com_option := com_option x OR opt\<rparr>) # xs)
      else (case addCenterOfMass_loop prefix name c opt xs of
              None \<Rightarrow> None
            | Some ys \<Rightarrow> Some (x # ys)))"

definition addCenterOfMass ::
  "string \<Rightarrow> 'h \<Rightarrow> ComputationOption \<Rightarrow> 'h Discretization
     \<Rightarrow> error + (bool \<times> 'h Discretization)" where
  "addCenterOfMass name c opt s =
     (if handle s = None then Inl (logic_error ''Initialize ROS first'')
      else
        (case addCenterOfMass_loop (topicPrefix s) name c opt (coms s) of
           Some cs \<Rightarrow> Inr (True, s\<lparr>coms := cs\<rparr>)
         | None \<Rightarrow>
             Inr (True,
                  s\<lparr>coms := coms s @ [COM_initPublishers (topicPrefix s) name (COM_new c opt)]\<rparr>)))"

fun addOperationalFrame_loop ::
  "string \<Rightarrow> string \<Rightarrow> nat \<Rightarrow> ComputationOption \<Rightarrow> FrameData list \<Rightarrow> FrameData list option" where
  "addOperationalFrame_loop prefix name index opt [] = None"
| "addOperationalFrame_loop prefix name index opt (x # xs) =
     (if frame_index x = index
      then Some (FrameData_initPublishers prefix name
                   (x\<lparr>frame_option := frame_option x OR opt\<rparr>) # xs)
      else (case addOperationalFrame_loop prefix name index opt xs of
              None \<Rightarrow> None
            | Some ys \<Rightarrow> Some (x # ys)))"

definition addOperationalFrame ::
  "('d, 'r, 'h) Device \<Rightarrow> string \<Rightarrow> ComputationOption \<Rightarrow> 'h Discretization
     \<Rightarrow> error + (bool \<times> 'h Discretization)" where
  "addOperationalFrame dev name opt s =
     (if handle s = None then Inl (logic_error ''Initialize ROS first'')
      else if \<not> existFrame dev name then Inr (False, s)
      else
        (let index = getFrameId dev name in
         case addOperationalFrame_loop (topicPrefix s) name index opt (frames s) of
           Some fs \<Rightarrow> Inr (True, s\<lparr>frames := fs\<rparr>)
         | None \<Rightarrow>
             Inr (True,
                  s\<lparr>frames := frames s @
                     [FrameData_initPublishers (topicPrefix s) name (FrameData_new index opt)]\<rparr>)))"

definition resetTopics :: "'h Discretization \<Rightarrow> 'h Discretization" where
  "resetTopics s = s\<lparr>frames := [], coms := []\<rparr>"

subsection \<open>\<open>initializeRosNode\<close> and \<open>shutdownRos\<close>\<close>

text \<open>The process-wide \<open>ros::init\<close> is outside the state of the object and is left out.\<close>

definition initializeRosNode ::
  "string \<Rightarrow> bool \<Rightarrow> 'h Discretization \<Rightarrow> bool \<times> 'h Discretization" where
  "initializeRosNode name anonymous s =
     (let ret = (handle s = None);
          s1 = (if handle s = None then s\<lparr>handle := Some NodeHandle\<rparr> else s)
      in (ret,
          s1\<lparr>pubQ := advertise (topicPrefix s @ ''position'') queue_size False,
             pubV := advertise (topicPrefix s @ ''velocity'') queue_size False,
             pubA := advertise (topicPrefix s @ ''acceleration'') queue_size False\<rparr>))"

definition shutdownRos :: "'h Discretization \<Rightarrow> 'h Discretization" where
  "shutdownRos s =
     (if handle s = None then s
      else (resetTopics s)\<lparr>pubQ := NoPublisher, pubV := NoPublisher, pubA := NoPublisher,
                            handle := None\<rparr>)"

subsection \<open>\<open>compute\<close>\<close>

text \<open>
  The message buffer \<open>qmsgs.data\<close> is a \<open>std::vector\<close>: \<open>resize\<close> keeps the leading
  elements and pads with zeros; an assignment through \<open>Eigen::Map\<close> at an offset overwrites
  a block in place (each block written in \<open>compute\<close> lies inside the buffer, which was
  resized for it).
\<close>

definition resize :: "nat \<Rightarrow> vector_t \<Rightarrow> vector_t" where
  "resize n xs = take n xs @ replicate (n - length xs) 0"

definition assign :: "nat \<Rightarrow> vector_t \<Rightarrow> vector_t \<Rightarrow> vector_t" where
  "assign off ys xs = take off xs @ ys @ drop (off + length ys) xs"

definition vec3 :: "vector3_t \<Rightarrow> vector_t" where
  "vec3 p = (case p of (x, y, z) \<Rightarrow> [x, y, z])"

definition sizeFreeflyer :: "'h Discretization \<Rightarrow> nat" where
  "sizeFreeflyer s = (if hasFreeflyer s then 6 else 0)"

text \<open>The three whole-body vectors, in the order the code builds them in the one buffer.\<close>

definition positionData ::
  "('d, 'r, 'h) Device \<Rightarrow> 'h Discretization \<Rightarrow> vector_t \<Rightarrow> 'd \<Rightarrow> error + vector_t" where
  "positionData dev s q d =
     (let data0 = resize (nbIndices (qView s) + sizeFreeflyer s) [] in
      case rview (qView s) q of
        Inl e \<Rightarrow> Inl e
      | Inr rq \<Rightarrow>
          (let data1 = assign (sizeFreeflyer s) rq data0 in
           if hasFreeflyer s then
             (if 1 < length (oMi dev d) then
                (let oMrj = oMi dev d ! 1;
                     data2 = assign 0 (vec3 (translation oMrj)) data1
                 in Inr (assign 3 (vec3 (eulerAngles dev (rotation oMrj) 2 1 0)) data2))
              else Inl out_of_range)
           else Inr data1))"

definition velocityData :: "'h Discretization \<Rightarrow> vector_t \<Rightarrow> vector_t \<Rightarrow> error + vector_t" where
  "velocityData s qdata v =
     (let data0 = resize (nbIndices (vView s) + sizeFreeflyer s) qdata in
      case rview (vView s) v of
        Inl e \<Rightarrow> Inl e
      | Inr rv \<Rightarrow>
          Inr (assign 0 (replicate (sizeFreeflyer s) 0) (assign (sizeFreeflyer s) rv data0)))"

definition accelerationData ::
  "'h Discretization \<Rightarrow> vector_t \<Rightarrow> vector_t \<Rightarrow> error + vector_t" where
  "accelerationData s vdata a =
     (case rview (vView s) a of
        Inl e \<Rightarrow> Inl e
      | Inr ra \<Rightarrow>
          Inr (assign 0 (replicate (sizeFreeflyer s) 0) (assign (sizeFreeflyer s) ra vdata)))"

text \<open>
  A part of \<open>compute\<close> yields the events it published, in order, and the error that
  stopped it, if any.
\<close>

type_synonym outcome = "event list \<times> error option"

definition andThen :: "outcome \<Rightarrow> outcome \<Rightarrow> outcome" where
  "andThen r1 r2 =
     (case snd r1 of
        Some e \<Rightarrow> r1
      | None \<Rightarrow> (fst r1 @ fst r2, snd r2))"

definition publishWholeBody ::
  "('d, 'r, 'h) Device \<Rightarrow> 'h Discretization \<Rightarrow> vector_t \<Rightarrow> vector_t \<Rightarrow> vector_t \<Rightarrow> 'd
     \<Rightarrow> outcome" where
  "publishWholeBody dev s q v a d =
     (case positionData dev s q d of
        Inl e \<Rightarrow> ([], Some e)
      | Inr qdata \<Rightarrow>
          (case velocityData s qdata v of
             Inl e \<Rightarrow> ([Publish (pubQ s) (Vector qdata)], Some e)
           | Inr vdata \<Rightarrow>
               (case accelerationData s vdata a of
                  Inl e \<Rightarrow>
                    ([Publish (pubQ s) (Vector qdata), Publish (pubV s) (Vector vdata)], Some e)
                | Inr adata \<Rightarrow>
                    ([Publish (pubQ s) (Vector qdata), Publish (pubV s) (Vector vdata),
                      Publish (pubA s) (Vector adata)], None))))"

definition publishFrame :: "('d, 'r, 'h) Device \<Rightarrow> 'd \<Rightarrow> FrameData \<Rightarrow> outcome" where
  "publishFrame dev d frame =
     andThen
       (if frame_option frame AND Position \<noteq> 0 then
          (if frame_index frame < length (oMf dev d) then
             (let placement = oMf dev d ! frame_index frame
              in ([Publish (frame_pubQ frame)
                     (Transform (translation placement) (Quaternion dev (rotation placement)))], None))
           else ([], Some out_of_range))
        else ([], None))
       (if frame_option frame AND Derivative \<noteq> 0 then
          ([Publish (frame_pubV frame)
              (Vector (assign 0 (getFrameVelocity dev d (frame_index frame)) (resize 6 [])))],
           None)
        else ([], None))"

fun publishFrames :: "('d, 'r, 'h) Device \<Rightarrow> 'd \<Rightarrow> FrameData list \<Rightarrow> outcome" where
  "publishFrames dev d [] = ([], None)"
| "publishFrames dev d (frame # fs) = andThen (publishFrame dev d frame) (publishFrames dev d fs)"

definition COM_compute :: "('d, 'r, 'h) Device \<Rightarrow> 'h COM \<Rightarrow> 'd \<Rightarrow> 'd" where
  "COM_compute dev c d =
     (if com_option c = Position then com_compute dev (com_handle c) pinocchio_COM d
      else if com_option c = Derivative then com_compute dev (com_handle c) pinocchio_VELOCITY d
      else if com_option c = Acceleration then d
      else if com_option c = PositionAndDerivative
        then com_compute dev (com_handle c) pinocchio_COMPUTE_ALL d
      else d)"

text \<open>The product of the 3-row jacobian with the velocity: Eigen refuses operands whose
  sizes do not agree, and computes the product otherwise.\<close>

definition jacobian_times ::
  "('d, 'r, 'h) Device \<Rightarrow> vector_t \<times> vector_t \<times> vector_t \<Rightarrow> vector_t \<Rightarrow> error + vector3_t" where
  "jacobian_times dev J v =
     (case J of (r1, r2, r3) \<Rightarrow>
        if length r1 = length v \<and> length r2 = length v \<and> length r3 = length v
        then Inr (jacobian_product dev J v)
        else Inl out_of_range)"

definition publishCOM :: "('d, 'r, 'h) Device \<Rightarrow> vector_t \<Rightarrow> 'd \<Rightarrow> 'h COM \<Rightarrow> outcome" where
  "publishCOM dev v d c =
     andThen
       (if com_option c AND Position \<noteq> 0 then
          (case com_com dev (com_handle c) d of
             (x, y, z) \<Rightarrow> ([Publish (com_pubQ c) (Vector3 x y z)], None))
        else ([], None))
       (if com_option c AND Derivative \<noteq> 0 then
          (case jacobian_times dev (com_jacobian dev (com_handle c) d) v of
             Inl e \<Rightarrow> ([], Some e)
           | Inr (x, y, z) \<Rightarrow> ([Publish (com_pubV c) (Vector3 x y z)], None))
        else ([], None))"

fun publishCOMs :: "('d, 'r, 'h) Device \<Rightarrow> vector_t \<Rightarrow> 'd \<Rightarrow> 'h COM list \<Rightarrow> outcome" where
  "publishCOMs dev v d [] = ([], None)"
| "publishCOMs dev v d (c # cs) =
     (let d' = COM_compute dev c d
      in andThen (publishCOM dev v d' c) (publishCOMs dev v d' cs))"

text \<open>
  Steps up to the end of the forward-kinematics pass: the path is checked and evaluated,
  its two derivatives are taken, and the device data is computed from configuration and
  velocity.  The members \<open>q_\<close>, \<open>v_\<close>, \<open>a_\<close> are scratch buffers overwritten by every
  call.
\<close>

definition sample ::
  "('d, 'r, 'h) Device \<Rightarrow> value_type \<Rightarrow> 'h Discretization
     \<Rightarrow> error + (vector_t \<times> vector_t \<times> vector_t \<times> 'd)" where
  "sample dev time s =
     (case path s of
        None \<Rightarrow> Inl (logic_error ''Path is not set'')
      | Some p \<Rightarrow>
          (case eval p time of
             (q, success) \<Rightarrow>
               if \<not> success then Inl (runtime_error ''Could not evaluate the path'')
               else
                 (let v = derivative p time 1;
                      a = derivative p time 2
                  in Inr (q, v, a, computeFramesForwardKinematics dev q v))))"

definition compute :: "('d, 'r, 'h) Device \<Rightarrow> value_type \<Rightarrow> 'h Discretization \<Rightarrow> outcome" where
  "compute dev time s =
     (case sample dev time s of
        Inl e \<Rightarrow> ([], Some e)
      | Inr (q, v, a, d) \<Rightarrow>
          andThen (publishWholeBody dev s q v a d)
            (andThen (publishFrames dev d (frames s)) (publishCOMs dev v d (coms s))))"

subsection \<open>The mutex\<close>

text \<open>
  What a call of a member function does to \<open>mutex_\<close>, beside what it publishes.  A
  \<open>boost::mutex::scoped_lock\<close> takes the mutex where it is constructed and releases it at
  the end of its scope, also when the scope is left by an exception.
\<close>

datatype action = Lock | Unlock | Event event

definition scoped_lock :: "action list \<Rightarrow> action list" where
  "scoped_lock body = Lock # body @ [Unlock]"

text \<open>
  The member functions as they are called: the actions of the call, in order, and its
  result.  \<open>compute\<close> constructs the lock in its first statement, before the path is
  tested; \<open>shutdownRos\<close> returns at once on a null handle and constructs the lock after
  that test, around \<open>resetTopics\<close> and the rest; the bodies of \<open>addCenterOfMass\<close>,
  \<open>addOperationalFrame\<close>, \<open>resetTopics\<close> and \<open>setJointNames\<close> construct no lock and
  publish nothing.
\<close>

definition compute_call ::
  "('d, 'r, 'h) Device \<Rightarrow> value_type \<Rightarrow> 'h Discretization \<Rightarrow> action list \<times> error option" where
  "compute_call dev time s =
     (scoped_lock (map Event (fst (compute dev time s))), snd (compute dev time s))"

definition shutdownRos_call :: "'h Discretization \<Rightarrow> action list \<times> 'h Discretization" where
  "shutdownRos_call s =
     (if handle s = None then ([], s) else (scoped_lock [], shutdownRos s))"

definition addCenterOfMass_call ::
  "string \<Rightarrow> 'h \<Rightarrow> ComputationOption \<Rightarrow> 'h Discretization
     \<Rightarrow> action list \<times> (error + (bool \<times> 'h Discretization))" where
  "addCenterOfMass_call name c opt s = ([], addCenterOfMass name c opt s)"

definition addOperationalFrame_call ::
  "('d, 'r, 'h) Device \<Rightarrow> string \<Rightarrow> ComputationOption \<Rightarrow> 'h Discretization
     \<Rightarrow> action list \<times> (error + (bool \<times> 'h Discretization))" where
  "addOperationalFrame_call dev name opt s = ([], addOperationalFrame dev name opt s)"

definition resetTopics_call :: "'h Discretization \<Rightarrow> action list \<times> 'h Discretization" where
  "resetTopics_call s = ([], resetTopics s)"

definition setJointNames_call ::
  "('d, 'r, 'h) Device \<Rightarrow> string list \<Rightarrow> 'h Discretization
     \<Rightarrow> action list \<times> (error + 'h Discretization)" where
  "setJointNames_call dev names s = ([], setJointNames dev names s)"

section \<open>Notions used in the statements\<close>

text \<open>
  The joints of a list of names that are not floating bases, in the order of the names,
  and the ranges they contribute to the configuration and to the velocity row view.
\<close>

definition nonFloating :: "('d, 'r, 'h) Device \<Rightarrow> string list \<Rightarrow> Joint list" where
  "nonFloating dev names = filter (\<lambda>j. \<not> isFloatingBase j) (map (getJointByName dev) names)"

definition configRows :: "Joint list \<Rightarrow> (nat \<times> nat) list" where
  "configRows js = map (\<lambda>j. (rankInConfiguration j, configSize j)) js"

definition velocityRows :: "Joint list \<Rightarrow> (nat \<times> nat) list" where
  "velocityRows js = map (\<lambda>j. (rankInVelocity j, numberDof j)) js"

text \<open>The six scalars written for the root joint: the translation of \<open>oMi[1]\<close>, then
  the Euler angles of its rotation for the axes 2, 1, 0 (Z, Y, X).\<close>

definition rootJointPosition :: "('d, 'r, 'h) Device \<Rightarrow> 'd \<Rightarrow> vector_t" where
  "rootJointPosition dev d =
     vec3 (translation (oMi dev d ! 1)) @ vec3 (eulerAngles dev (rotation (oMi dev d ! 1)) 2 1 0)"

text \<open>
  The reading of the specification, for comparison: the floating-base joints among a list
  of names, and the six scalars of the world placement of a given joint, found in \<open>oMi\<close>
  at the joint's own index.
\<close>

definition floatingJoints :: "('d, 'r, 'h) Device \<Rightarrow> string list \<Rightarrow> Joint list" where
  "floatingJoints dev names = filter isFloatingBase (map (getJointByName dev) names)"

definition jointPlacement :: "('d, 'r, 'h) Device \<Rightarrow> 'd \<Rightarrow> Joint \<Rightarrow> vector_t" where
  "jointPlacement dev d joint =
     vec3 (translation (oMi dev d ! jointIndex joint)) @
     vec3 (eulerAngles dev (rotation (oMi dev d ! jointIndex joint)) 2 1 0)"

text \<open>The targets registered for a frame index, and for a centre-of-mass handle.\<close>

definition frameTargets :: "nat \<Rightarrow> FrameData list \<Rightarrow> FrameData list" where
  "frameTargets index fs = filter (\<lambda>f. frame_index f = index) fs"

definition comTargets :: "'h \<Rightarrow> 'h COM list \<Rightarrow> 'h COM list" where
  "comTargets c cs = filter (\<lambda>x. com_handle x = c) cs"

text \<open>The invariant of the two target lists: no two frame targets share an index, no two
  centre-of-mass targets share a handle.\<close>

definition targets_distinct :: "'h Discretization \<Rightarrow> bool" where
  "targets_distinct s =
     (distinct (map frame_index (frames s)) \<and> distinct (map com_handle (coms s)))"

text \<open>An event of the three whole-body channels of a state: a vector message published on
  \<open>pubQ\<close>, \<open>pubV\<close> or \<open>pubA\<close>.\<close>

definition wholeBodyEvent :: "'h Discretization \<Rightarrow> event \<Rightarrow> bool" where
  "wholeBodyEvent s ev =
     (case ev of
        Publish p (Vector x) \<Rightarrow> p = pubQ s \<or> p = pubV s \<or> p = pubA s
      | Publish p (Transform x y) \<Rightarrow> False
      | Publish p (Vector3 x y z) \<Rightarrow> False)"

section \<open>A concrete robot\<close>

text \<open>
  A device with a free-flyer root joint (joint 1), two arm joints and the free-flyer of an
  object, two operational frames, and a path defined on the interval from 0 to 1.  Device
  data is the pair of configuration and velocity; a rotation is given by its Z, Y, X Euler
  angles together with its unit quaternion.
\<close>

type_synonym demo_rotation = "vector3_t \<times> (value_type \<times> value_type \<times> value_type \<times> value_type)"
type_synonym demo_data = "vector_t \<times> vector_t"

definition demo_joint :: "string \<Rightarrow> Joint" where
  "demo_joint name =
     (if name = ''root_joint'' then
        \<lparr>jointIndex = 1,
         configurationSpace = LiegroupSpace_SE3, rankInConfiguration = 0, configSize = 7,
         rankInVelocity = 0, numberDof = 6\<rparr>
      else if name = ''shoulder'' then
        \<lparr>jointIndex = 2,
         configurationSpace = LiegroupSpace_Rn 1, rankInConfiguration = 7, configSize = 1,
         rankInVelocity = 6, numberDof = 1\<rparr>
      else if name = ''elbow'' then
        \<lparr>jointIndex = 3,
         configurationSpace = LiegroupSpace_SO2, rankInConfiguration = 8, configSize = 2,
         rankInVelocity = 7, numberDof = 1\<rparr>
      else if name = ''object/root_joint'' then
        \<lparr>jointIndex = 4,
         configurationSpace = LiegroupSpace_R3xSO3, rankInConfiguration = 10, configSize = 7,
         rankInVelocity = 8, numberDof = 6\<rparr>
      else
        \<lparr>jointIndex = 0,
         configurationSpace = LiegroupSpace_Rn 0, rankInConfiguration = 0, configSize = 0,
         rankInVelocity = 0, numberDof = 0\<rparr>)"

definition demo_identity :: demo_rotation where
  "demo_identity = ((0, 0, 0), (1, 0, 0, 0))"

definition demo_half_turn :: demo_rotation where
  "demo_half_turn = ((pi, 0, 0), (0, 0, 0, 1))"

definition demo_origin :: "vector_t \<Rightarrow> nat \<Rightarrow> vector3_t" where
  "demo_origin q k = (case drop k q of x # y # z # _ \<Rightarrow> (x, y, z) | _ \<Rightarrow> (0, 0, 0))"

definition demo_dot :: "vector_t \<Rightarrow> vector_t \<Rightarrow> value_type" where
  "demo_dot r v = sum_list (map2 (*) r v)"

definition demo_device :: "(demo_data, demo_rotation, nat) Device" where
  "demo_device =
     \<lparr>getJointByName = demo_joint,
      existFrame = (\<lambda>name. name = ''gripper'' \<or> name = ''camera''),
      getFrameId = (\<lambda>name. if name = ''gripper'' then 1 else if name = ''camera'' then 2 else 3),
      computeFramesForwardKinematics = (\<lambda>q v. (q, v)),
      oMi = (\<lambda>d. [\<lparr>translation = (0, 0, 0), rotation = demo_identity\<rparr>,
                   \<lparr>translation = demo_origin (fst d) 0, rotation = demo_half_turn\<rparr>,
                   \<lparr>translation = demo_origin (fst d) 0, rotation = demo_identity\<rparr>,
                   \<lparr>translation = demo_origin (fst d) 0, rotation = demo_identity\<rparr>,
                   \<lparr>translation = demo_origin (fst d) 10, rotation = demo_identity\<rparr>]),
      oMf = (\<lambda>d. [\<lparr>translation = (0, 0, 0), rotation = demo_identity\<rparr>,
                   \<lparr>translation = demo_origin (fst d) 0, rotation = demo_half_turn\<rparr>,
                   \<lparr>translation = demo_origin (fst d) 0, rotation = demo_identity\<rparr>]),
      eulerAngles = (\<lambda>r a0 a1 a2. if (a0, a1, a2) = (2, 1, 0) then fst r else (0, 0, 0)),
      Quaternion = snd,
      getFrameVelocity = (\<lambda>d k. take 6 (snd d)),
      com_compute = (\<lambda>h flag d. d),
      com_com = (\<lambda>h d. demo_origin (fst d) 0),
      com_jacobian = (\<lambda>h d. (map (\<lambda>x. 1) (snd d), map (\<lambda>x. 0) (snd d), map (\<lambda>x. 0) (snd d))),
      jacobian_product = (\<lambda>J v. case J of (r1, r2, r3) \<Rightarrow>
                            (demo_dot r1 v, demo_dot r2 v, demo_dot r3 v))\<rparr>"

definition demo_path :: Path where
  "demo_path =
     \<lparr>eval = (\<lambda>t. if 0 \<le> t \<and> t \<le> 1
                   then ([t, 2, 3, 0, 0, 0, 1, 4, 5, 6, 7, 8, 9, 0, 0, 0, 1], True)
                   else ([], False)),
      derivative = (\<lambda>t order. if order = 1 then [1, 0, 0, 0, 0, 0, 7, 8, 0, 0, 0, 0, 0, 0]
                                else replicate 14 0)\<rparr>"

definition demo_new :: "nat Discretization" where
  "demo_new =
     \<lparr>path = None, handle = None, topicPrefix = ''/hpp/target/'', hasFreeflyer = False,
      qView = RowBlockIndices_empty, vView = RowBlockIndices_empty, frames = [], coms = [],
      pubQ = NoPublisher, pubV = NoPublisher, pubA = NoPublisher\<rparr>"

definition demo_ready :: "nat Discretization" where
  "demo_ready =
     \<lparr>path = Some demo_path, handle = Some NodeHandle, topicPrefix = ''/hpp/target/'',
      hasFreeflyer = True,
      qView = \<lparr>ranges = [(7, 1), (8, 2)], finalized = True\<rparr>,
      vView = \<lparr>ranges = [(6, 1), (7, 1)], finalized = True\<rparr>,
      frames = [], coms = [],
      pubQ = Advertised ''/hpp/target/position'' 1000 False,
      pubV = Advertised ''/hpp/target/velocity'' 1000 False,
      pubA = Advertised ''/hpp/target/acceleration'' 1000 False\<rparr>"

subsection \<open>A fixed arm and a free object\<close>

text \<open>
  A second device: an arm on a fixed base (joints 1 and 2) and the free-flyer of an object
  (joint 3), with a path and the state after \<open>initializeRosNode\<close>, setting the path, and
  \<open>setJointNames\<close> on the three joints.
\<close>

definition arm_joint :: "string \<Rightarrow> Joint" where
  "arm_joint name =
     (if name = ''shoulder'' then
        \<lparr>jointIndex = 1,
         configurationSpace = LiegroupSpace_Rn 1, rankInConfiguration = 0, configSize = 1,
         rankInVelocity = 0, numberDof = 1\<rparr>
      else if name = ''elbow'' then
        \<lparr>jointIndex = 2,
         configurationSpace = LiegroupSpace_SO2, rankInConfiguration = 1, configSize = 2,
         rankInVelocity = 1, numberDof = 1\<rparr>
      else if name = ''object/root_joint'' then
        \<lparr>jointIndex = 3,
         configurationSpace = LiegroupSpace_SE3, rankInConfiguration = 3, configSize = 7,
         rankInVelocity = 2, numberDof = 6\<rparr>
      else
        \<lparr>jointIndex = 0,
         configurationSpace = LiegroupSpace_Rn 0, rankInConfiguration = 0, configSize = 0,
         rankInVelocity = 0, numberDof = 0\<rparr>)"

definition arm_device :: "(demo_data, demo_rotation, nat) Device" where
  "arm_device =
     demo_device
       \<lparr>getJointByName := arm_joint,
        oMi := (\<lambda>d. [\<lparr>translation = (0, 0, 0), rotation = demo_identity\<rparr>,
                      \<lparr>translation = (0, 0, 1), rotation = demo_identity\<rparr>,
                      \<lparr>translation = (0, 0, 2), rotation = demo_identity\<rparr>,
                      \<lparr>translation = demo_origin (fst d) 3, rotation = demo_half_turn\<rparr>])\<rparr>"

definition arm_path :: Path where
  "arm_path =
     \<lparr>eval = (\<lambda>t. if 0 \<le> t \<and> t \<le> 1 then ([4, 5, 6, 7, 8, 9, 0, 0, 0, 1], True)
                   else ([], False)),
      derivative = (\<lambda>t order. if order = 1 then [1, 2, 0, 0, 0, 0, 0, 0] else replicate 8 0)\<rparr>"

definition arm_ready :: "nat Discretization" where
  "arm_ready =
     \<lparr>path = Some arm_path, handle = Some NodeHandle, topicPrefix = ''/hpp/target/'',
      hasFreeflyer = True,
      qView = \<lparr>ranges = [(0, 1), (1, 2)], finalized = True\<rparr>,
      vView = \<lparr>ranges = [(0, 1), (1, 1)], finalized = True\<rparr>,
      frames = [], coms = [],
      pubQ = Advertised ''/hpp/target/position'' 1000 False,
      pubV = Advertised ''/hpp/target/velocity'' 1000 False,
      pubA = Advertised ''/hpp/target/acceleration'' 1000 False\<rparr>"

section \<open>Joint-subset reconfiguration\<close>

text \<open>
  The loop of \<open>setJointNames\<close> never fails on views that are not finalised, and its
  result has a closed form: the flag becomes set as soon as one name is a floating base,
  and each other joint adds one range to each view, in the order of the names.
\<close>

lemma setJointNames_loop_closed:
  "\<not> finalized (qView s) \<Longrightarrow> \<not> finalized (vView s) \<Longrightarrow>
   setJointNames_loop dev names s =
     Inr (s\<lparr>hasFreeflyer := hasFreeflyer s \<or> list_ex isFloatingBase (map (getJointByName dev) names),
            qView := (qView s)\<lparr>ranges := ranges (qView s) @ configRows (nonFloating dev names)\<rparr>,
            vView := (vView s)\<lparr>ranges := ranges (vView s) @ velocityRows (nonFloating dev names)\<rparr>\<rparr>)"
proof (induction names arbitrary: s)
  case Nil
  then show ?case by (simp add: nonFloating_def configRows_def velocityRows_def)
next
  case (Cons name names)
  show ?case
  proof (cases "isFloatingBase (getJointByName dev name)")
    case True
    with Cons.prems Cons.IH [of "s\<lparr>hasFreeflyer := True\<rparr>"] show ?thesis
      by (simp add: nonFloating_def Let_def)
  next
    case False
    with Cons.prems
      Cons.IH [of "s\<lparr>qView := (qView s)\<lparr>ranges := ranges (qView s) @
                       [(rankInConfiguration (getJointByName dev name), configSize (getJointByName dev name))]\<rparr>,
                     vView := (vView s)\<lparr>ranges := ranges (vView s) @
                       [(rankInVelocity (getJointByName dev name), numberDof (getJointByName dev name))]\<rparr>\<rparr>"]
    show ?thesis
      by (simp add: nonFloating_def configRows_def velocityRows_def addRow_def Let_def)
  qed
qed

lemma setJointNames_closed:
  "setJointNames dev names s =
     Inr (s\<lparr>hasFreeflyer := list_ex isFloatingBase (map (getJointByName dev) names),
            qView := \<lparr>ranges = configRows (nonFloating dev names), finalized = True\<rparr>,
            vView := \<lparr>ranges = velocityRows (nonFloating dev names), finalized = True\<rparr>\<rparr>)"
  by (simp add: setJointNames_def setJointNames_loop_closed RowBlockIndices_empty_def updateRows_def)

lemma length_segments:
  "list_all (in_range x) rs \<Longrightarrow> length (concat (map (segment x) rs)) = sum_list (map snd rs)"
  by (induction rs) (auto simp: in_range_def segment_def)

lemma length_rview: "rview w x = Inr r \<Longrightarrow> length r = nbIndices w"
  by (auto simp: rview_def nbIndices_def length_segments split: if_splits)

section \<open>The whole-body messages\<close>

text \<open>
  The buffer operations of \<open>compute\<close> in closed form: once the extraction through a
  view succeeds, each of the three vectors is a prefix of \<open>sizeFreeflyer\<close> scalars
  followed by the extracted rows.
\<close>

lemma length_vec3 [simp]: "length (vec3 p) = 3"
  by (simp add: vec3_def split: prod.splits)

lemma resize_Nil: "resize n [] = replicate n 0"
  by (simp add: resize_def)

lemma length_resize [simp]: "length (resize n xs) = n"
  by (simp add: resize_def)

lemma assign_tail: "length xs = off + length ys \<Longrightarrow> assign off ys xs = take off xs @ ys"
  by (simp add: assign_def)

lemma positionData_ok:
  assumes "rview (qView s) q = Inr rq"
  shows "positionData dev s q d =
           (if hasFreeflyer s then
              (if 1 < length (oMi dev d) then Inr (rootJointPosition dev d @ rq)
               else Inl out_of_range)
            else Inr rq)"
proof -
  have len: "length rq = nbIndices (qView s)"
    using assms by (rule length_rview)
  have a1: "assign k rq (resize (nbIndices (qView s) + k) []) = replicate k 0 @ rq" for k
    using len by (simp add: assign_tail resize_Nil)
  have a2: "assign 3 e (assign 0 t (replicate 6 0 @ rq)) = t @ e @ rq"
    if "length t = 3" "length e = 3" for t e :: vector_t
    using that by (simp add: assign_def)
  show ?thesis
  proof (cases "hasFreeflyer s")
    case True
    then show ?thesis
      using assms by (simp add: positionData_def Let_def a1 a2 rootJointPosition_def sizeFreeflyer_def)
  next
    case False
    then show ?thesis
      using assms a1 [of 0] by (simp add: positionData_def Let_def sizeFreeflyer_def)
  qed
qed

lemma velocityData_ok:
  assumes "rview (vView s) v = Inr rv"
  shows "velocityData s qdata v = Inr (replicate (sizeFreeflyer s) 0 @ rv)"
proof -
  have len: "length rv = nbIndices (vView s)"
    using assms by (rule length_rview)
  show ?thesis
    using assms len by (simp add: velocityData_def Let_def assign_def)
qed

lemma accelerationData_ok:
  assumes "rview (vView s) a = Inr ra" and "length vdata = sizeFreeflyer s + nbIndices (vView s)"
  shows "accelerationData s vdata a = Inr (replicate (sizeFreeflyer s) 0 @ ra)"
proof -
  have len: "length ra = nbIndices (vView s)"
    using assms(1) by (rule length_rview)
  show ?thesis
    using assms len by (simp add: accelerationData_def assign_def)
qed

lemma andThen_None: "andThen r1 r2 = (evs, None) \<Longrightarrow> snd r1 = None \<and> snd r2 = None \<and> evs = fst r1 @ fst r2"
  by (auto simp: andThen_def split: option.splits)

lemma andThen_empty: "andThen r ([], None) = r"
  by (cases r) (simp add: andThen_def split: option.splits)

lemma publishWholeBody_None:
  assumes "snd (publishWholeBody dev s q v a d) = None"
  shows "\<exists>rq rv ra.
           rview (qView s) q = Inr rq \<and> rview (vView s) v = Inr rv \<and> rview (vView s) a = Inr ra \<and>
           (hasFreeflyer s \<longrightarrow> 1 < length (oMi dev d)) \<and>
           fst (publishWholeBody dev s q v a d) =
             [Publish (pubQ s) (Vector ((if hasFreeflyer s then rootJointPosition dev d else []) @ rq)),
              Publish (pubV s) (Vector (replicate (sizeFreeflyer s) 0 @ rv)),
              Publish (pubA s) (Vector (replicate (sizeFreeflyer s) 0 @ ra))]"
proof -
  obtain rq where rq: "rview (qView s) q = Inr rq"
    using assms by (cases "rview (qView s) q") (auto simp: publishWholeBody_def positionData_def Let_def)
  obtain rv where rv: "rview (vView s) v = Inr rv"
    using assms by (cases "rview (vView s) v")
      (auto simp: publishWholeBody_def velocityData_def Let_def split: sum.splits)
  obtain ra where ra: "rview (vView s) a = Inr ra"
    using assms rv by (cases "rview (vView s) a")
      (auto simp: publishWholeBody_def accelerationData_def velocityData_ok Let_def split: sum.splits)
  have ff: "hasFreeflyer s \<longrightarrow> 1 < length (oMi dev d)"
    using assms rq by (auto simp: publishWholeBody_def positionData_ok split: if_splits)
  have lv: "length (replicate (sizeFreeflyer s) 0 @ rv) = sizeFreeflyer s + nbIndices (vView s)"
    using length_rview [OF rv] by simp
  show ?thesis
    using rq rv ra ff lv
    by (auto simp: publishWholeBody_def positionData_ok velocityData_ok accelerationData_ok)
qed

lemma publishWholeBody_events:
  "list_all (wholeBodyEvent s) (fst (publishWholeBody dev s q v a d))"
  by (simp add: publishWholeBody_def wholeBodyEvent_def split: sum.splits)

section \<open>Registration of targets\<close>

text \<open>
  One registration, of a frame or of a centre of mass: it succeeds, keeps the keys of the
  targets distinct, leaves one target for the key with the new mode OR-ed in, and does not
  touch the targets of other keys.
\<close>

lemma or_and_absorb_nat: "(a OR b) AND a = (a::nat)"
  by (auto simp: bit_eq_iff bit_and_iff bit_or_iff)

lemma FrameData_initPublishers_keeps [simp]:
  "frame_index (FrameData_initPublishers p n f) = frame_index f"
  "frame_option (FrameData_initPublishers p n f) = frame_option f"
  by (simp_all add: FrameData_initPublishers_def Let_def)

lemma frame_loop_None:
  "(addOperationalFrame_loop p n i m fs = None) = (i \<notin> set (map frame_index fs))"
  by (induction fs) (auto split: option.splits)

lemma frame_loop_Some:
  assumes "addOperationalFrame_loop p n i m fs = Some ys"
  shows "map frame_index ys = map frame_index fs"
    and "j \<noteq> i \<Longrightarrow> frameTargets j ys = frameTargets j fs"
    and "distinct (map frame_index fs) \<Longrightarrow>
           \<exists>f0. frameTargets i fs = [f0] \<and>
             frameTargets i ys = [FrameData_initPublishers p n (f0\<lparr>frame_option := frame_option f0 OR m\<rparr>)]"
  using assms
proof (induction fs arbitrary: ys)
  case Nil
  { case 1 then show ?case by simp }
  { case 2 then show ?case by simp }
  { case 3 then show ?case by simp }
next
  case (Cons x xs)
  { case 1 with Cons.IH(1) show ?case by (auto split: if_splits option.splits) }
  { case 2 with Cons.IH(2) show ?case by (auto simp: frameTargets_def split: if_splits option.splits) }
  { case 3
    show ?case
    proof (cases "frame_index x = i")
      case True
      with 3 have "ys = FrameData_initPublishers p n (x\<lparr>frame_option := frame_option x OR m\<rparr>) # xs"
        by simp
      moreover from 3(1) True have "i \<notin> frame_index ` set xs"
        by simp
      then have "filter (\<lambda>f. frame_index f = i) xs = []"
        by (auto simp: filter_empty_conv)
      ultimately show ?thesis using True by (simp add: frameTargets_def)
    next
      case False
      with 3 obtain zs where zs: "addOperationalFrame_loop p n i m xs = Some zs" "ys = x # zs"
        by (auto split: option.splits)
      from 3(1) have "distinct (map frame_index xs)" by simp
      from Cons.IH(3) [OF this zs(1)] False zs(2) show ?thesis
        by (simp add: frameTargets_def)
    qed }
qed

lemma filter_key_single:
  "distinct (map k xs) \<Longrightarrow> x \<in> set xs \<Longrightarrow> filter (\<lambda>y. k y = k x) xs = [x]"
proof (induction xs)
  case Nil
  then show ?case by simp
next
  case (Cons a xs)
  show ?case
  proof (cases "a = x")
    case True
    from Cons.prems(1) have "k a \<notin> k ` set xs" by simp
    then have "filter (\<lambda>y. k y = k a) xs = []"
      by (auto simp: filter_empty_conv image_iff)
    with True show ?thesis by simp
  next
    case False
    with Cons.prems have x: "x \<in> set xs" and d: "distinct (map k xs)" and "k a \<notin> k ` set xs"
      by simp_all
    then have "k a \<noteq> k x" by auto
    with Cons.IH [OF d x] show ?thesis by simp
  qed
qed

lemma addOperationalFrame_step:
  assumes h: "handle s \<noteq> None" and e: "existFrame dev name"
    and d: "distinct (map frame_index (frames s))"
  shows "\<exists>s1 g. addOperationalFrame dev name m s = Inr (True, s1) \<and>
           handle s1 = handle s \<and> topicPrefix s1 = topicPrefix s \<and>
           distinct (map frame_index (frames s1)) \<and>
           frameTargets (getFrameId dev name) (frames s1) = [g] \<and>
           frame_option g =
             (case frameTargets (getFrameId dev name) (frames s) of
                [] \<Rightarrow> m | f0 # fs \<Rightarrow> frame_option f0 OR m) \<and>
           (\<forall>j. j \<noteq> getFrameId dev name \<longrightarrow>
                frameTargets j (frames s1) = frameTargets j (frames s))"
proof (cases "addOperationalFrame_loop (topicPrefix s) name (getFrameId dev name) m (frames s)")
  case None
  with frame_loop_None [of "topicPrefix s" name "getFrameId dev name" m "frames s"]
  have n: "getFrameId dev name \<notin> set (map frame_index (frames s))"
    by blast
  then have "frameTargets (getFrameId dev name) (frames s) = []"
    by (auto simp: frameTargets_def filter_empty_conv image_iff)
  with None h e d n show ?thesis
    by (auto simp: addOperationalFrame_def Let_def frameTargets_def FrameData_new_def)
next
  case (Some ys)
  from frame_loop_Some(3) [OF Some d] obtain f0 where
    f0: "frameTargets (getFrameId dev name) (frames s) = [f0]"
        "frameTargets (getFrameId dev name) ys =
           [FrameData_initPublishers (topicPrefix s) name (f0\<lparr>frame_option := frame_option f0 OR m\<rparr>)]"
    by blast
  from frame_loop_Some(1) [OF Some] d have "distinct (map frame_index ys)"
    by simp
  with Some h e f0 frame_loop_Some(2) [OF Some] show ?thesis
    by (auto simp: addOperationalFrame_def Let_def)
qed

lemma COM_initPublishers_keeps [simp]:
  "com_handle (COM_initPublishers p n c) = com_handle c"
  "com_option (COM_initPublishers p n c) = com_option c"
  by (simp_all add: COM_initPublishers_def Let_def)

lemma COM_initPublishers_pubQ:
  "com_option c AND Position \<noteq> 0 \<Longrightarrow>
     com_pubQ (COM_initPublishers p n c) = advertise (p @ ''com/'' @ n) queue_size False"
  by (simp add: COM_initPublishers_def Let_def)

lemma COM_initPublishers_pubV:
  "com_option c AND Derivative \<noteq> 0 \<Longrightarrow>
     com_pubV (COM_initPublishers p n c) = advertise (p @ ''velocity/com/'' @ n) queue_size False"
  by (simp add: COM_initPublishers_def Let_def)

lemma com_loop_None:
  "(addCenterOfMass_loop p n h m cs = None) = (h \<notin> set (map com_handle cs))"
  by (induction cs) (auto split: option.splits)

lemma com_loop_Some:
  assumes "addCenterOfMass_loop p n h m cs = Some ys"
  shows "map com_handle ys = map com_handle cs"
    and "distinct (map com_handle cs) \<Longrightarrow>
           \<exists>c0. comTargets h cs = [c0] \<and>
             comTargets h ys = [COM_initPublishers p n (c0\<lparr>com_option := com_option c0 OR m\<rparr>)]"
  using assms
proof (induction cs arbitrary: ys)
  case Nil
  { case 1 then show ?case by simp }
  { case 2 then show ?case by simp }
next
  case (Cons x xs)
  { case 1 with Cons.IH(1) show ?case by (auto split: if_splits option.splits) }
  { case 2
    show ?case
    proof (cases "com_handle x = h")
      case True
      with 2 have "ys = COM_initPublishers p n (x\<lparr>com_option := com_option x OR m\<rparr>) # xs"
        by simp
      moreover from 2(1) True have "h \<notin> com_handle ` set xs"
        by simp
      then have "filter (\<lambda>c. com_handle c = h) xs = []"
        by (auto simp: filter_empty_conv)
      ultimately show ?thesis using True by (simp add: comTargets_def)
    next
      case False
      with 2 obtain zs where zs: "addCenterOfMass_loop p n h m xs = Some zs" "ys = x # zs"
        by (auto split: option.splits)
      from 2(1) have "distinct (map com_handle xs)" by simp
      from Cons.IH(2) [OF this zs(1)] False zs(2) show ?thesis
        by (simp add: comTargets_def)
    qed }
qed

lemma addCenterOfMass_succeeds:
  "handle s \<noteq> None \<Longrightarrow> \<exists>s'. addCenterOfMass n h m s = Inr (True, s')"
  by (simp add: addCenterOfMass_def split: option.splits)

lemma addCenterOfMass_step:
  assumes h: "handle s \<noteq> None" and d: "distinct (map com_handle (coms s))"
  shows "\<exists>s1 g. addCenterOfMass n c m s = Inr (True, s1) \<and>
           handle s1 = handle s \<and> topicPrefix s1 = topicPrefix s \<and>
           distinct (map com_handle (coms s1)) \<and>
           length (coms s1) = (if comTargets c (coms s) = [] then Suc (length (coms s)) else length (coms s)) \<and>
           comTargets c (coms s1) = [g] \<and>
           com_option g =
             (case comTargets c (coms s) of [] \<Rightarrow> m | c0 # cs \<Rightarrow> com_option c0 OR m) \<and>
           (com_option g AND Position \<noteq> 0 \<longrightarrow>
              com_pubQ g = advertise (topicPrefix s @ ''com/'' @ n) queue_size False) \<and>
           (com_option g AND Derivative \<noteq> 0 \<longrightarrow>
              com_pubV g = advertise (topicPrefix s @ ''velocity/com/'' @ n) queue_size False)"
proof (cases "addCenterOfMass_loop (topicPrefix s) n c m (coms s)")
  case None
  with com_loop_None [of "topicPrefix s" n c m "coms s"]
  have nin: "c \<notin> set (map com_handle (coms s))"
    by blast
  then have "comTargets c (coms s) = []"
    by (auto simp: comTargets_def filter_empty_conv image_iff)
  with None h d nin show ?thesis
    by (auto simp: addCenterOfMass_def comTargets_def COM_new_def
        COM_initPublishers_pubQ COM_initPublishers_pubV)
next
  case (Some ys)
  from com_loop_Some(2) [OF Some d] obtain c0 where
    c0: "comTargets c (coms s) = [c0]"
        "comTargets c ys =
           [COM_initPublishers (topicPrefix s) n (c0\<lparr>com_option := com_option c0 OR m\<rparr>)]"
    by blast
  from com_loop_Some(1) [OF Some] d have dy: "distinct (map com_handle ys)"
    by simp
  from com_loop_Some(1) [OF Some] have "length (map com_handle ys) = length (map com_handle (coms s))"
    by simp
  then have ly: "length ys = length (coms s)"
    by simp
  from Some h c0 dy ly show ?thesis
    by (auto simp: addCenterOfMass_def COM_initPublishers_pubQ COM_initPublishers_pubV)
qed

text \<open>The invariant holds with no target and is kept by every operation of the class.\<close>

lemma targets_distinct_preserved:
  assumes "targets_distinct s"
  shows "addOperationalFrame dev name m s = Inr (b, s') \<Longrightarrow> targets_distinct s'"
    and "addCenterOfMass name c m s = Inr (b, s') \<Longrightarrow> targets_distinct s'"
    and "setJointNames dev names s = Inr s' \<Longrightarrow> targets_distinct s'"
    and "targets_distinct (resetTopics s)"
    and "targets_distinct (snd (initializeRosNode name anonymous s))"
    and "targets_distinct (shutdownRos s)"
proof -
  from assms have df: "distinct (map frame_index (frames s))"
    and dc: "distinct (map com_handle (coms s))"
    by (simp_all add: targets_distinct_def)
  show "targets_distinct s'" if r: "addOperationalFrame dev name m s = Inr (b, s')"
  proof (cases "handle s \<noteq> None \<and> existFrame dev name")
    case True
    with addOperationalFrame_step [OF _ _ df, of dev name m] r obtain s1 where
      "s' = s1" "distinct (map frame_index (frames s1))"
      "addOperationalFrame dev name m s = Inr (True, s1)"
      by auto
    moreover from True r have "coms s' = coms s"
      by (auto simp: addOperationalFrame_def Let_def split: option.splits)
    ultimately show ?thesis
      using dc by (simp add: targets_distinct_def)
  next
    case False
    with r assms show ?thesis
      by (auto simp: addOperationalFrame_def split: if_splits)
  qed
  show "targets_distinct s'" if r: "addCenterOfMass name c m s = Inr (b, s')"
  proof -
    from r have h: "handle s \<noteq> None"
      by (auto simp: addCenterOfMass_def split: if_splits)
    with addCenterOfMass_step [OF h dc, of name c m] r have "distinct (map com_handle (coms s'))"
      by auto
    moreover from r have "frames s' = frames s"
      by (auto simp: addCenterOfMass_def split: if_splits option.splits)
    ultimately show ?thesis
      using df by (simp add: targets_distinct_def)
  qed
  show "targets_distinct s'" if "setJointNames dev names s = Inr s'"
    using that assms by (auto simp: setJointNames_closed targets_distinct_def)
  show "targets_distinct (resetTopics s)"
    by (simp add: targets_distinct_def resetTopics_def)
  show "targets_distinct (snd (initializeRosNode name anonymous s))"
    using assms by (simp add: targets_distinct_def initializeRosNode_def Let_def)
  show "targets_distinct (shutdownRos s)"
    using assms by (simp add: targets_distinct_def shutdownRos_def resetTopics_def)
qed

section \<open>Reset of the targets\<close>

lemma resetTopics_fields:
  "qView (resetTopics s) = qView s" "vView (resetTopics s) = vView s"
  "hasFreeflyer (resetTopics s) = hasFreeflyer s"
  "pubQ (resetTopics s) = pubQ s" "pubV (resetTopics s) = pubV s" "pubA (resetTopics s) = pubA s"
  "frames (resetTopics s) = []" "coms (resetTopics s) = []"
  by (simp_all add: resetTopics_def)

lemma sample_resetTopics: "sample dev t (resetTopics s) = sample dev t s"
  by (simp add: sample_def resetTopics_def)

lemma publishWholeBody_resetTopics:
  "publishWholeBody dev (resetTopics s) q v a d = publishWholeBody dev s q v a d"
proof -
  have "positionData dev (resetTopics s) q d = positionData dev s q d"
    by (simp add: positionData_def sizeFreeflyer_def resetTopics_fields Let_def split: sum.splits)
  moreover have "velocityData (resetTopics s) x v = velocityData s x v" for x
    by (simp add: velocityData_def sizeFreeflyer_def resetTopics_fields Let_def split: sum.splits)
  moreover have "accelerationData (resetTopics s) x a = accelerationData s x a" for x
    by (simp add: accelerationData_def sizeFreeflyer_def resetTopics_fields Let_def split: sum.splits)
  ultimately show ?thesis
    by (simp add: publishWholeBody_def resetTopics_fields split: sum.splits)
qed

section \<open>The concrete robot at work\<close>

text \<open>
  The state \<open>demo_ready\<close> is the one reached from a new object by \<open>initializeRosNode\<close>,
  setting the path, and \<open>setJointNames\<close> on the root joint and the two arm joints.
\<close>

lemma demo_ready_reached: "setJointNames demo_device [''root_joint'', ''shoulder'', ''elbow'']
   ((snd (initializeRosNode ''hpp'' False demo_new))\<lparr>path := Some demo_path\<rparr>) = Inr demo_ready"
  by (simp add: setJointNames_def demo_device_def demo_joint_def isFloatingBase_def addRow_def
      RowBlockIndices_empty_def updateRows_def initializeRosNode_def demo_new_def demo_ready_def
      advertise_def queue_size_def Let_def)

lemma demo_sample: "sample demo_device (1/2) demo_ready =
   Inr ([1/2, 2, 3, 0, 0, 0, 1, 4, 5, 6, 7, 8, 9, 0, 0, 0, 1], [1, 0, 0, 0, 0, 0, 7, 8, 0, 0, 0, 0, 0, 0], replicate 14 0,
        ([1/2, 2, 3, 0, 0, 0, 1, 4, 5, 6, 7, 8, 9, 0, 0, 0, 1], [1, 0, 0, 0, 0, 0, 7, 8, 0, 0, 0, 0, 0, 0]))"
  by (simp add: sample_def demo_ready_def demo_path_def demo_device_def Let_def)

lemma demo_compute: "compute demo_device (1/2) demo_ready =
   ([Publish (Advertised ''/hpp/target/position'' 1000 False) (Vector [1/2, 2, 3, pi, 0, 0, 4, 5, 6]),
     Publish (Advertised ''/hpp/target/velocity'' 1000 False) (Vector [0, 0, 0, 0, 0, 0, 7, 8]),
     Publish (Advertised ''/hpp/target/acceleration'' 1000 False) (Vector [0, 0, 0, 0, 0, 0, 0, 0])], None)"
  apply (simp add: compute_def demo_sample)
  apply (simp add: publishWholeBody_def positionData_def velocityData_def accelerationData_def
      demo_ready_def rview_def in_range_def segment_def nbIndices_def sizeFreeflyer_def
      resize_def assign_def vec3_def demo_device_def demo_origin_def demo_half_turn_def
      andThen_def Let_def numeral_eq_Suc)
  done

section \<open>The claims\<close>

text \<open>
  Claim C1.  \<open>compute\<close> without a path throws the logic error "Path is not set"; with a
  path whose evaluation at the time reports failure it throws the runtime error "Could not
  evaluate the path"; and whatever error arises up to the end of the forward-kinematics
  pass, the call has published nothing, on any channel.
\<close>

theorem compute_failure_publishes_nothing:
  "(path s = None \<longrightarrow> compute dev t s = ([], Some (logic_error ''Path is not set''))) \<and>
   (\<forall>p. path s = Some p \<and> \<not> snd (eval p t) \<longrightarrow>
        compute dev t s = ([], Some (runtime_error ''Could not evaluate the path''))) \<and>
   (\<forall>e. sample dev t s = Inl e \<longrightarrow> compute dev t s = ([], Some e))"
  by (auto simp: compute_def sample_def split: prod.splits)

theorem compute_failure_publishes_nothing_witness:
  "path demo_new = None \<and>
   compute demo_device (1/2) demo_new = ([], Some (logic_error ''Path is not set'')) \<and>
   path demo_ready = Some demo_path \<and> \<not> snd (eval demo_path 2) \<and>
   compute demo_device 2 demo_ready = ([], Some (runtime_error ''Could not evaluate the path'')) \<and>
   sample demo_device 2 demo_ready = Inl (runtime_error ''Could not evaluate the path'')"
proof -
  have a: "path demo_new = None"
    by (simp add: demo_new_def)
  have b: "path demo_ready = Some demo_path \<and> \<not> snd (eval demo_path 2)"
    by (simp add: demo_ready_def demo_path_def)
  have c: "sample demo_device 2 demo_ready = Inl (runtime_error ''Could not evaluate the path'')"
    by (simp add: sample_def demo_ready_def demo_path_def)
  from compute_failure_publishes_nothing [of demo_new demo_device "1/2"]
    compute_failure_publishes_nothing [of demo_ready demo_device 2] a b c
  show ?thesis
    by blast
qed

text \<open>
  Claim C2, as amended.  When \<open>compute\<close> succeeds, its first three events are the
  position, velocity and acceleration messages, on \<open>pubQ\<close>, \<open>pubV\<close> and \<open>pubA\<close>.  The
  position vector is, with the free-flyer flag, the six scalars of the placement of joint 1
  (translation of \<open>oMi[1]\<close>, then its Euler angles for the axes Z, Y, X), followed by the
  extraction of the configuration through the configuration view; the velocity and the
  acceleration vector are, with the flag, six zeros, followed by the extraction of the
  velocity, resp. acceleration, through the velocity view.  So each length is 6 or 0 plus
  the size of the view.
\<close>

theorem compute_whole_body_layout:
  assumes "sample dev t s = Inr (q, v, a, d)" and "compute dev t s = (evs, None)"
  shows "\<exists>rq rv ra.
           rview (qView s) q = Inr rq \<and> rview (vView s) v = Inr rv \<and> rview (vView s) a = Inr ra \<and>
           length rq = nbIndices (qView s) \<and> length rv = nbIndices (vView s) \<and>
           length ra = nbIndices (vView s) \<and>
           length (if hasFreeflyer s then rootJointPosition dev d else []) = (if hasFreeflyer s then 6 else 0) \<and>
           take 3 evs =
             [Publish (pubQ s) (Vector ((if hasFreeflyer s then rootJointPosition dev d else []) @ rq)),
              Publish (pubV s) (Vector (replicate (if hasFreeflyer s then 6 else 0) 0 @ rv)),
              Publish (pubA s) (Vector (replicate (if hasFreeflyer s then 6 else 0) 0 @ ra))]"
proof -
  from assms have c: "andThen (publishWholeBody dev s q v a d)
            (andThen (publishFrames dev d (frames s)) (publishCOMs dev v d (coms s))) = (evs, None)"
    by (simp add: compute_def)
  from andThen_None [OF c] have n: "snd (publishWholeBody dev s q v a d) = None"
    and e: "evs = fst (publishWholeBody dev s q v a d) @
                  fst (andThen (publishFrames dev d (frames s)) (publishCOMs dev v d (coms s)))"
    by simp_all
  from publishWholeBody_None [OF n] obtain rq rv ra where
    r: "rview (qView s) q = Inr rq" "rview (vView s) v = Inr rv" "rview (vView s) a = Inr ra"
    and w: "fst (publishWholeBody dev s q v a d) =
             [Publish (pubQ s) (Vector ((if hasFreeflyer s then rootJointPosition dev d else []) @ rq)),
              Publish (pubV s) (Vector (replicate (sizeFreeflyer s) 0 @ rv)),
              Publish (pubA s) (Vector (replicate (sizeFreeflyer s) 0 @ ra))]"
    by blast
  have t3: "take 3 evs = fst (publishWholeBody dev s q v a d)"
    using e w by simp
  show ?thesis
    using r w t3 length_rview [OF r(1)] length_rview [OF r(2)] length_rview [OF r(3)]
    by (simp add: sizeFreeflyer_def rootJointPosition_def)
qed

theorem compute_whole_body_layout_witness:
  "sample demo_device (1/2) demo_ready =
     Inr ([1/2, 2, 3, 0, 0, 0, 1, 4, 5, 6, 7, 8, 9, 0, 0, 0, 1],
          [1, 0, 0, 0, 0, 0, 7, 8, 0, 0, 0, 0, 0, 0], replicate 14 0,
          ([1/2, 2, 3, 0, 0, 0, 1, 4, 5, 6, 7, 8, 9, 0, 0, 0, 1],
           [1, 0, 0, 0, 0, 0, 7, 8, 0, 0, 0, 0, 0, 0])) \<and>
   compute demo_device (1/2) demo_ready =
     ([Publish (Advertised ''/hpp/target/position'' 1000 False) (Vector [1/2, 2, 3, pi, 0, 0, 4, 5, 6]),
       Publish (Advertised ''/hpp/target/velocity'' 1000 False) (Vector [0, 0, 0, 0, 0, 0, 7, 8]),
       Publish (Advertised ''/hpp/target/acceleration'' 1000 False)
         (Vector [0, 0, 0, 0, 0, 0, 0, 0])], None) \<and>
   hasFreeflyer demo_ready \<and> nbIndices (qView demo_ready) = 3 \<and> nbIndices (vView demo_ready) = 2 \<and>
   rootJointPosition demo_device
     ([1/2, 2, 3, 0, 0, 0, 1, 4, 5, 6, 7, 8, 9, 0, 0, 0, 1],
      [1, 0, 0, 0, 0, 0, 7, 8, 0, 0, 0, 0, 0, 0]) = [1/2, 2, 3, pi, 0, 0] \<and>
   rview (qView demo_ready) [1/2, 2, 3, 0, 0, 0, 1, 4, 5, 6, 7, 8, 9, 0, 0, 0, 1] = Inr [4, 5, 6]"
proof -
  note t = compute_whole_body_layout [OF demo_sample demo_compute]
  have "rootJointPosition demo_device
     ([1/2, 2, 3, 0, 0, 0, 1, 4, 5, 6, 7, 8, 9, 0, 0, 0, 1],
      [1, 0, 0, 0, 0, 0, 7, 8, 0, 0, 0, 0, 0, 0]) = [1/2, 2, 3, pi, 0, 0]"
    by (simp add: rootJointPosition_def demo_device_def demo_origin_def demo_half_turn_def vec3_def)
  moreover have "hasFreeflyer demo_ready" "nbIndices (qView demo_ready) = 3"
    "nbIndices (vView demo_ready) = 2"
    by (simp_all add: demo_ready_def nbIndices_def)
  moreover from t this have
    "rview (qView demo_ready) [1/2, 2, 3, 0, 0, 0, 1, 4, 5, 6, 7, 8, 9, 0, 0, 0, 1] = Inr [4, 5, 6]"
    using calculation(1) by auto
  ultimately show ?thesis
    using demo_sample demo_compute by simp
qed

text \<open>
  Claim C2 as it was stated has the six scalars be the placement of the floating joint.  On
  the fixed arm with the free object, the only floating base among the three names is the
  free-flyer of the object, joint 3; \<open>compute\<close> publishes the placement of joint 1, the
  first joint of the arm, which is not the placement of the object.
\<close>

theorem compute_whole_body_layout_counterexample:
  "setJointNames arm_device [''shoulder'', ''elbow'', ''object/root_joint'']
     ((snd (initializeRosNode ''hpp'' False demo_new))\<lparr>path := Some arm_path\<rparr>) = Inr arm_ready \<and>
   hasFreeflyer arm_ready \<and>
   floatingJoints arm_device [''shoulder'', ''elbow'', ''object/root_joint''] =
     [arm_joint ''object/root_joint''] \<and>
   jointIndex (arm_joint ''object/root_joint'') = 3 \<and>
   \<not> isFloatingBase (arm_joint ''shoulder'') \<and> jointIndex (arm_joint ''shoulder'') = 1 \<and>
   compute arm_device (1/2) arm_ready =
     ([Publish (Advertised ''/hpp/target/position'' 1000 False) (Vector [0, 0, 1, 0, 0, 0, 4, 5, 6]),
       Publish (Advertised ''/hpp/target/velocity'' 1000 False) (Vector [0, 0, 0, 0, 0, 0, 1, 2]),
       Publish (Advertised ''/hpp/target/acceleration'' 1000 False)
         (Vector [0, 0, 0, 0, 0, 0, 0, 0])], None) \<and>
   jointPlacement arm_device
     ([4, 5, 6, 7, 8, 9, 0, 0, 0, 1], [1, 2, 0, 0, 0, 0, 0, 0])
     (arm_joint ''object/root_joint'') = [7, 8, 9, pi, 0, 0] \<and>
   take 6 [0, 0, 1, 0, 0, 0, 4, 5, 6] \<noteq> [7, 8, 9, pi, 0, 0]"
proof -
  have j: "getJointByName arm_device = arm_joint"
    by (simp add: arm_device_def)
  have s: "setJointNames arm_device [''shoulder'', ''elbow'', ''object/root_joint'']
     ((snd (initializeRosNode ''hpp'' False demo_new))\<lparr>path := Some arm_path\<rparr>) = Inr arm_ready"
    by (simp add: setJointNames_def j arm_joint_def isFloatingBase_def addRow_def
        RowBlockIndices_empty_def updateRows_def initializeRosNode_def demo_new_def arm_ready_def
        advertise_def queue_size_def Let_def)
  have f: "floatingJoints arm_device [''shoulder'', ''elbow'', ''object/root_joint''] =
     [arm_joint ''object/root_joint'']"
    by (simp add: floatingJoints_def j arm_joint_def isFloatingBase_def)
  have p: "jointPlacement arm_device
     ([4, 5, 6, 7, 8, 9, 0, 0, 0, 1], [1, 2, 0, 0, 0, 0, 0, 0])
     (arm_joint ''object/root_joint'') = [7, 8, 9, pi, 0, 0]"
    by (simp add: jointPlacement_def arm_joint_def arm_device_def demo_device_def demo_origin_def
        demo_half_turn_def vec3_def numeral_3_eq_3)
  have i: "jointIndex (arm_joint ''object/root_joint'') = 3" "hasFreeflyer arm_ready"
    "\<not> isFloatingBase (arm_joint ''shoulder'')" "jointIndex (arm_joint ''shoulder'') = 1"
    by (simp_all add: arm_joint_def arm_ready_def isFloatingBase_def)
  have a: "sample arm_device (1/2) arm_ready =
     Inr ([4, 5, 6, 7, 8, 9, 0, 0, 0, 1], [1, 2, 0, 0, 0, 0, 0, 0], replicate 8 0,
          ([4, 5, 6, 7, 8, 9, 0, 0, 0, 1], [1, 2, 0, 0, 0, 0, 0, 0]))"
    by (simp add: sample_def arm_ready_def arm_path_def arm_device_def demo_device_def Let_def)
  have c: "compute arm_device (1/2) arm_ready =
     ([Publish (Advertised ''/hpp/target/position'' 1000 False) (Vector [0, 0, 1, 0, 0, 0, 4, 5, 6]),
       Publish (Advertised ''/hpp/target/velocity'' 1000 False) (Vector [0, 0, 0, 0, 0, 0, 1, 2]),
       Publish (Advertised ''/hpp/target/acceleration'' 1000 False)
         (Vector [0, 0, 0, 0, 0, 0, 0, 0])], None)"
    apply (simp add: compute_def a)
    apply (simp add: publishWholeBody_def positionData_def velocityData_def accelerationData_def
        arm_ready_def rview_def in_range_def segment_def nbIndices_def sizeFreeflyer_def
        resize_def assign_def vec3_def arm_device_def demo_device_def demo_identity_def
        andThen_def Let_def numeral_eq_Suc)
    done
  have n: "take 6 [0, 0, 1, 0, 0, 0, 4, 5, 6] \<noteq> [7, 8, 9, pi, 0, 0]"
    by simp
  from s f p i c n show ?thesis
    by blast
qed

text \<open>
  Claim C3.  \<open>COM::compute\<close> switches on the whole value of the mode.  For a target whose
  mode has the Acceleration bit beside Position or Derivative no case applies: the
  centre-of-mass computation is not called and the device data is the one it was given,
  while a target of mode Position has it called with the flag COM.  The loop of
  \<open>compute\<close> still publishes the position of such a target, read from the data as it was.
  A mode Position|Acceleration arises from registering a handle with Position and then
  with Acceleration.
\<close>

theorem COM_compute_skipped_with_Acceleration:
  "COM_compute dev \<lparr>com_handle = h, com_option = Position OR Acceleration,
                    com_pubQ = pq, com_pubV = pv\<rparr> d = d \<and>
   COM_compute dev \<lparr>com_handle = h, com_option = Derivative OR Acceleration,
                    com_pubQ = pq, com_pubV = pv\<rparr> d = d \<and>
   COM_compute dev \<lparr>com_handle = h, com_option = PositionAndDerivative OR Acceleration,
                    com_pubQ = pq, com_pubV = pv\<rparr> d = d \<and>
   COM_compute dev \<lparr>com_handle = h, com_option = Position,
                    com_pubQ = pq, com_pubV = pv\<rparr> d = com_compute dev h pinocchio_COM d \<and>
   publishCOMs dev v d [\<lparr>com_handle = h, com_option = Position OR Acceleration,
                         com_pubQ = pq, com_pubV = pv\<rparr>] =
     ([Publish pq (case com_com dev h d of (x, y, z) \<Rightarrow> Vector3 x y z)], None) \<and>
   publishCOMs dev v d [\<lparr>com_handle = h, com_option = Position,
                         com_pubQ = pq, com_pubV = pv\<rparr>] =
     ([Publish pq (case com_com dev h (com_compute dev h pinocchio_COM d) of
                     (x, y, z) \<Rightarrow> Vector3 x y z)], None) \<and>
   addCenterOfMass ''arm'' (7::nat) Position demo_ready =
     Inr (True, demo_ready\<lparr>coms := [\<lparr>com_handle = 7, com_option = Position,
            com_pubQ = Advertised ''/hpp/target/com/arm'' 1000 False, com_pubV = NoPublisher\<rparr>]\<rparr>) \<and>
   addCenterOfMass ''arm'' (7::nat) Acceleration
       (demo_ready\<lparr>coms := [\<lparr>com_handle = 7, com_option = Position,
            com_pubQ = Advertised ''/hpp/target/com/arm'' 1000 False, com_pubV = NoPublisher\<rparr>]\<rparr>) =
     Inr (True, demo_ready\<lparr>coms := [\<lparr>com_handle = 7, com_option = Position OR Acceleration,
            com_pubQ = Advertised ''/hpp/target/com/arm'' 1000 False, com_pubV = NoPublisher\<rparr>]\<rparr>)"
proof -
  have o: "Position OR Acceleration = 5" "Derivative OR Acceleration = 6"
    "PositionAndDerivative OR Acceleration = 7" "PositionAndDerivative = 3"
    by (simp_all add: Position_def Derivative_def Acceleration_def PositionAndDerivative_def)
  have c: "COM_compute dev \<lparr>com_handle = h, com_option = k, com_pubQ = pq, com_pubV = pv\<rparr> d = d"
    if "k = 5 \<or> k = 6 \<or> k = 7" for k
    using that by (auto simp: COM_compute_def o Position_def Derivative_def Acceleration_def)
  have c5: "COM_compute dev \<lparr>com_handle = h, com_option = Position OR Acceleration,
                    com_pubQ = pq, com_pubV = pv\<rparr> d = d"
    and c6: "COM_compute dev \<lparr>com_handle = h, com_option = Derivative OR Acceleration,
                    com_pubQ = pq, com_pubV = pv\<rparr> d = d"
    and c7: "COM_compute dev \<lparr>com_handle = h, com_option = PositionAndDerivative OR Acceleration,
                    com_pubQ = pq, com_pubV = pv\<rparr> d = d"
    by (simp_all add: c Position_def Derivative_def Acceleration_def PositionAndDerivative_def)
  have p: "COM_compute dev \<lparr>com_handle = h, com_option = Position, com_pubQ = pq, com_pubV = pv\<rparr> d =
      com_compute dev h pinocchio_COM d"
    by (simp add: COM_compute_def)
  have b: "(5::nat) AND Position \<noteq> 0" "(5::nat) AND Derivative = 0"
    "Position AND Position \<noteq> 0" "Position AND Derivative = 0"
    by (simp_all add: Position_def Derivative_def)
  have e1: "publishCOMs dev v d [\<lparr>com_handle = h, com_option = Position OR Acceleration,
                         com_pubQ = pq, com_pubV = pv\<rparr>] =
     ([Publish pq (case com_com dev h d of (x, y, z) \<Rightarrow> Vector3 x y z)], None)"
    by (simp add: o c publishCOM_def b andThen_def Let_def split: prod.splits)
  have e2: "publishCOMs dev v d [\<lparr>com_handle = h, com_option = Position,
                         com_pubQ = pq, com_pubV = pv\<rparr>] =
     ([Publish pq (case com_com dev h (com_compute dev h pinocchio_COM d) of
                     (x, y, z) \<Rightarrow> Vector3 x y z)], None)"
    by (simp add: p publishCOM_def andThen_def Let_def Position_def [symmetric] b split: prod.splits)
       (simp add: Position_def)
  have r1: "addCenterOfMass ''arm'' (7::nat) Position demo_ready =
     Inr (True, demo_ready\<lparr>coms := [\<lparr>com_handle = 7, com_option = Position,
            com_pubQ = Advertised ''/hpp/target/com/arm'' 1000 False, com_pubV = NoPublisher\<rparr>]\<rparr>)"
    by (simp add: addCenterOfMass_def demo_ready_def COM_initPublishers_def COM_new_def
        Position_def Derivative_def advertise_def queue_size_def Let_def)
  have r2: "addCenterOfMass ''arm'' (7::nat) Acceleration
       (demo_ready\<lparr>coms := [\<lparr>com_handle = 7, com_option = Position,
            com_pubQ = Advertised ''/hpp/target/com/arm'' 1000 False, com_pubV = NoPublisher\<rparr>]\<rparr>) =
     Inr (True, demo_ready\<lparr>coms := [\<lparr>com_handle = 7, com_option = Position OR Acceleration,
            com_pubQ = Advertised ''/hpp/target/com/arm'' 1000 False, com_pubV = NoPublisher\<rparr>]\<rparr>)"
    by (simp add: addCenterOfMass_def demo_ready_def COM_initPublishers_def
        Position_def Derivative_def Acceleration_def advertise_def queue_size_def Let_def)
  from c5 c6 c7 p e1 e2 r1 r2 show ?thesis
    by blast
qed

text \<open>
  Claim C4.  For every list of joint names, \<open>setJointNames\<close> resets the free-flyer flag and
  both row views and then goes through the names in order: a joint whose configuration
  space is SE(3), R3xSO(3), SE(2) or R2xSO(2) sets the flag and adds no range; any other
  joint adds (rankInConfiguration, configSize) to the configuration view and
  (rankInVelocity, numberDof) to the velocity view; both views end finalised.  When no name
  is a floating base, the size of each view is the sum of the joints' sizes, and extraction
  from a vector that holds all the ranges returns the joints' segments in the order of the
  names.
\<close>

theorem setJointNames_row_views:
  "(case setJointNames dev names s of
      Inl e \<Rightarrow> False
    | Inr s' \<Rightarrow>
        s' = s\<lparr>hasFreeflyer := list_ex isFloatingBase (map (getJointByName dev) names),
               qView := \<lparr>ranges = configRows (nonFloating dev names), finalized = True\<rparr>,
               vView := \<lparr>ranges = velocityRows (nonFloating dev names), finalized = True\<rparr>\<rparr> \<and>
        (\<not> list_ex isFloatingBase (map (getJointByName dev) names) \<longrightarrow>
           nbIndices (qView s') = sum_list (map (\<lambda>n. configSize (getJointByName dev n)) names) \<and>
           nbIndices (vView s') = sum_list (map (\<lambda>n. numberDof (getJointByName dev n)) names) \<and>
           (\<forall>x. list_all (in_range x) (configRows (map (getJointByName dev) names)) \<longrightarrow>
                rview (qView s') x =
                  Inr (concat (map (\<lambda>n. segment x (rankInConfiguration (getJointByName dev n),
                                                     configSize (getJointByName dev n))) names))) \<and>
           (\<forall>x. list_all (in_range x) (velocityRows (map (getJointByName dev) names)) \<longrightarrow>
                rview (vView s') x =
                  Inr (concat (map (\<lambda>n. segment x (rankInVelocity (getJointByName dev n),
                                                     numberDof (getJointByName dev n))) names)))))"
proof -
  have nf: "nonFloating dev names = map (getJointByName dev) names"
    if "\<not> list_ex isFloatingBase (map (getJointByName dev) names)"
    using that by (simp add: nonFloating_def list_ex_iff filter_id_conv)
  show ?thesis
    by (simp add: setJointNames_closed)
       (auto simp: nf nbIndices_def rview_def configRows_def velocityRows_def comp_def)
qed

theorem setJointNames_row_views_witness:
  "setJointNames demo_device [''shoulder'', ''elbow''] demo_new =
     Inr (demo_new\<lparr>hasFreeflyer := False,
                    qView := \<lparr>ranges = [(7, 1), (8, 2)], finalized = True\<rparr>,
                    vView := \<lparr>ranges = [(6, 1), (7, 1)], finalized = True\<rparr>\<rparr>) \<and>
   \<not> list_ex isFloatingBase (map (getJointByName demo_device) [''shoulder'', ''elbow'']) \<and>
   nbIndices \<lparr>ranges = [(7, 1), (8, 2)], finalized = True\<rparr> = 3 \<and>
   nbIndices \<lparr>ranges = [(6, 1), (7, 1)], finalized = True\<rparr> = 2 \<and>
   rview \<lparr>ranges = [(7, 1), (8, 2)], finalized = True\<rparr> [10, 11, 12, 13, 14, 15, 16, 17, 18, 19] =
     Inr [17, 18, 19] \<and>
   rview \<lparr>ranges = [(6, 1), (7, 1)], finalized = True\<rparr> [20, 21, 22, 23, 24, 25, 26, 27] =
     Inr [26, 27]"
proof -
  have j: "getJointByName demo_device = demo_joint"
    by (simp add: demo_device_def)
  have r: "setJointNames demo_device [''shoulder'', ''elbow''] demo_new =
     Inr (demo_new\<lparr>hasFreeflyer := False,
                    qView := \<lparr>ranges = [(7, 1), (8, 2)], finalized = True\<rparr>,
                    vView := \<lparr>ranges = [(6, 1), (7, 1)], finalized = True\<rparr>\<rparr>)"
    by (simp add: setJointNames_def j demo_joint_def isFloatingBase_def addRow_def
        RowBlockIndices_empty_def updateRows_def demo_new_def Let_def)
  have f: "\<not> list_ex isFloatingBase (map (getJointByName demo_device) [''shoulder'', ''elbow''])"
    by (simp add: j demo_joint_def isFloatingBase_def)
  have q: "list_all (in_range [10, 11, 12, 13, 14, 15, 16, 17, 18, 19 :: real])
             (configRows (map (getJointByName demo_device) [''shoulder'', ''elbow'']))"
    by (simp add: j demo_joint_def configRows_def in_range_def)
  have v: "list_all (in_range [20, 21, 22, 23, 24, 25, 26, 27 :: real])
             (velocityRows (map (getJointByName demo_device) [''shoulder'', ''elbow'']))"
    by (simp add: j demo_joint_def velocityRows_def in_range_def)
  from setJointNames_row_views [of demo_device "[''shoulder'', ''elbow'']" demo_new] r f q v
  show ?thesis
    by (simp add: j demo_joint_def segment_def)
qed

text \<open>
  Claim C5, as amended.  Every call of \<open>compute\<close> takes the mutex first and releases it
  last, with all its publications in between, whether it succeeds or throws; a call of
  \<open>shutdownRos\<close> on an initialised object takes and releases it, and on an object that is
  not initialised returns without touching it.  A call of \<open>addOperationalFrame\<close>,
  \<open>addCenterOfMass\<close>, \<open>setJointNames\<close> or \<open>resetTopics\<close> never takes the mutex: its
  actions are none, and its result is that of the function.
\<close>

theorem lock_taken_by_compute_and_shutdown_only:
  "fst (compute_call dev t s) = Lock # map Event (fst (compute dev t s)) @ [Unlock] \<and>
   snd (compute_call dev t s) = snd (compute dev t s) \<and>
   (handle s \<noteq> None \<longrightarrow> shutdownRos_call s = ([Lock, Unlock], shutdownRos s)) \<and>
   (handle s = None \<longrightarrow> shutdownRos_call s = ([], s)) \<and>
   Lock \<notin> set (fst (addOperationalFrame_call dev name m s)) \<and>
   snd (addOperationalFrame_call dev name m s) = addOperationalFrame dev name m s \<and>
   Lock \<notin> set (fst (addCenterOfMass_call name c m s)) \<and>
   snd (addCenterOfMass_call name c m s) = addCenterOfMass name c m s \<and>
   Lock \<notin> set (fst (setJointNames_call dev names s)) \<and>
   snd (setJointNames_call dev names s) = setJointNames dev names s \<and>
   Lock \<notin> set (fst (resetTopics_call s)) \<and>
   snd (resetTopics_call s) = resetTopics s"
  by (simp add: compute_call_def shutdownRos_call_def addOperationalFrame_call_def
      addCenterOfMass_call_def setJointNames_call_def resetTopics_call_def scoped_lock_def)

theorem lock_taken_by_compute_and_shutdown_only_witness:
  "handle demo_ready \<noteq> None \<and>
   shutdownRos_call demo_ready = ([Lock, Unlock], shutdownRos demo_ready) \<and>
   handle demo_new = None \<and> shutdownRos_call demo_new = ([], demo_new) \<and>
   fst (compute_call demo_device (1/2) demo_ready) =
     [Lock,
      Event (Publish (Advertised ''/hpp/target/position'' 1000 False)
               (Vector [1/2, 2, 3, pi, 0, 0, 4, 5, 6])),
      Event (Publish (Advertised ''/hpp/target/velocity'' 1000 False)
               (Vector [0, 0, 0, 0, 0, 0, 7, 8])),
      Event (Publish (Advertised ''/hpp/target/acceleration'' 1000 False)
               (Vector [0, 0, 0, 0, 0, 0, 0, 0])),
      Unlock] \<and>
   compute_call demo_device 2 demo_ready =
     ([Lock, Unlock], Some (runtime_error ''Could not evaluate the path''))"
proof -
  have a: "handle demo_ready \<noteq> None" and b: "handle demo_new = None"
    by (simp_all add: demo_ready_def demo_new_def)
  have c: "compute demo_device 2 demo_ready =
      ([], Some (runtime_error ''Could not evaluate the path''))"
    by (simp add: compute_def sample_def demo_ready_def demo_path_def)
  have d: "compute_call demo_device 2 demo_ready =
      (fst (compute_call demo_device 2 demo_ready), snd (compute_call demo_device 2 demo_ready))"
    by simp
  from lock_taken_by_compute_and_shutdown_only [of demo_device "1/2" demo_ready]
    lock_taken_by_compute_and_shutdown_only [of demo_device 2 demo_ready]
    lock_taken_by_compute_and_shutdown_only [of demo_device 2 demo_new]
    a b c d demo_compute
  show ?thesis
    by simp
qed

text \<open>
  Claim C5 as it was stated has every reconfiguration call take the mutex.  On the
  concrete robot, none of the four does, while \<open>compute\<close> does.
\<close>

theorem lock_taken_by_compute_and_shutdown_only_counterexample:
  "Lock \<notin> set (fst (setJointNames_call demo_device [''shoulder'', ''elbow''] demo_ready)) \<and>
   Lock \<notin> set (fst (addOperationalFrame_call demo_device ''gripper'' Position demo_ready)) \<and>
   Lock \<notin> set (fst (addCenterOfMass_call ''arm'' (7::nat) Position demo_ready)) \<and>
   Lock \<notin> set (fst (resetTopics_call demo_ready)) \<and>
   Lock \<in> set (fst (compute_call demo_device (1/2) demo_ready)) \<and>
   setJointNames_call demo_device [''shoulder'', ''elbow''] demo_ready =
     ([], Inr (demo_ready\<lparr>hasFreeflyer := False\<rparr>))"
proof -
  have j: "getJointByName demo_device = demo_joint"
    by (simp add: demo_device_def)
  have s: "setJointNames demo_device [''shoulder'', ''elbow''] demo_ready =
      Inr (demo_ready\<lparr>hasFreeflyer := False\<rparr>)"
    by (simp add: setJointNames_def j demo_joint_def isFloatingBase_def addRow_def
        RowBlockIndices_empty_def updateRows_def demo_ready_def Let_def)
  show ?thesis
    by (simp add: s setJointNames_call_def addOperationalFrame_call_def addCenterOfMass_call_def
        resetTopics_call_def compute_call_def scoped_lock_def)
qed

text \<open>
  Claim C6.  With the transport initialised, a frame the model knows and targets of
  distinct frame indices, registering a frame twice succeeds twice and leaves exactly one
  target for its index.  The mode of that target is the bitwise OR of the two modes (OR-ed
  with the mode the frame already had, if it was registered before), the indices stay
  distinct, and every target that existed keeps all the bits of its mode.
\<close>

theorem addOperationalFrame_twice:
  assumes h: "handle s \<noteq> None" and e: "existFrame dev name"
    and d: "distinct (map frame_index (frames s))"
  shows "\<exists>s1 s2 f.
           addOperationalFrame dev name m1 s = Inr (True, s1) \<and>
           addOperationalFrame dev name m2 s1 = Inr (True, s2) \<and>
           frameTargets (getFrameId dev name) (frames s2) = [f] \<and>
           frame_option f =
             (case frameTargets (getFrameId dev name) (frames s) of
                [] \<Rightarrow> m1 OR m2 | f0 # fs \<Rightarrow> frame_option f0 OR m1 OR m2) \<and>
           distinct (map frame_index (frames s2)) \<and>
           (\<forall>f0 \<in> set (frames s). \<exists>f' \<in> set (frames s2).
              frame_index f' = frame_index f0 \<and> frame_option f' AND frame_option f0 = frame_option f0)"
proof -
  let ?i = "getFrameId dev name"
  from addOperationalFrame_step [OF h e d, of m1] obtain s1 g where
    s1: "addOperationalFrame dev name m1 s = Inr (True, s1)" "handle s1 = handle s"
      "distinct (map frame_index (frames s1))" "frameTargets ?i (frames s1) = [g]"
      "frame_option g = (case frameTargets ?i (frames s) of [] \<Rightarrow> m1 | f0 # fs \<Rightarrow> frame_option f0 OR m1)"
      "\<forall>j. j \<noteq> ?i \<longrightarrow> frameTargets j (frames s1) = frameTargets j (frames s)"
    by blast
  from s1(2) h have h1: "handle s1 \<noteq> None" by simp
  from addOperationalFrame_step [OF h1 e s1(3), of m2] obtain s2 f where
    s2: "addOperationalFrame dev name m2 s1 = Inr (True, s2)"
      "distinct (map frame_index (frames s2))" "frameTargets ?i (frames s2) = [f]"
      "frame_option f = (case frameTargets ?i (frames s1) of [] \<Rightarrow> m2 | f0 # fs \<Rightarrow> frame_option f0 OR m2)"
      "\<forall>j. j \<noteq> ?i \<longrightarrow> frameTargets j (frames s2) = frameTargets j (frames s1)"
    by blast
  have opt: "frame_option f =
      (case frameTargets ?i (frames s) of [] \<Rightarrow> m1 OR m2 | f0 # fs \<Rightarrow> frame_option f0 OR m1 OR m2)"
    using s2(4) s1(4,5) by (simp add: or.assoc split: list.splits)
  have mono: "\<exists>f' \<in> set (frames s2).
      frame_index f' = frame_index f0 \<and> frame_option f' AND frame_option f0 = frame_option f0"
    if m: "f0 \<in> set (frames s)" for f0
  proof (cases "frame_index f0 = ?i")
    case True
    from filter_key_single [OF d m] True have "frameTargets ?i (frames s) = [f0]"
      by (simp add: frameTargets_def)
    with opt have o: "frame_option f = frame_option f0 OR m1 OR m2" by simp
    from s2(3) have "f \<in> set (frames s2)" "frame_index f = ?i"
      by (auto simp: frameTargets_def filter_eq_Cons_iff)
    with o True show ?thesis
      by (auto simp: or_and_absorb_nat intro!: bexI [of _ f])
  next
    case False
    with s1(6) s2(5) have "frameTargets (frame_index f0) (frames s2) = frameTargets (frame_index f0) (frames s)"
      by simp
    moreover from m have "f0 \<in> set (frameTargets (frame_index f0) (frames s))"
      by (simp add: frameTargets_def)
    ultimately have "f0 \<in> set (frameTargets (frame_index f0) (frames s2))"
      by simp
    then have "f0 \<in> set (frames s2)"
      by (simp add: frameTargets_def)
    then show ?thesis
      by (auto intro!: bexI [of _ f0])
  qed
  from s1(1) s2(1,2,3) opt mono show ?thesis by blast
qed

theorem addOperationalFrame_twice_witness:
  "handle demo_ready \<noteq> None \<and> existFrame demo_device ''gripper'' \<and>
   distinct (map frame_index (frames demo_ready)) \<and>
   (\<exists>s1 s2 f.
      addOperationalFrame demo_device ''gripper'' Position demo_ready = Inr (True, s1) \<and>
      addOperationalFrame demo_device ''gripper'' Derivative s1 = Inr (True, s2) \<and>
      frameTargets (getFrameId demo_device ''gripper'') (frames s2) = [f] \<and>
      frame_option f = PositionAndDerivative)"
proof -
  have h: "handle demo_ready \<noteq> None" and d: "distinct (map frame_index (frames demo_ready))"
    by (simp_all add: demo_ready_def)
  have e: "existFrame demo_device ''gripper''"
    by (simp add: demo_device_def)
  have n: "frameTargets (getFrameId demo_device ''gripper'') (frames demo_ready) = []"
    by (simp add: frameTargets_def demo_ready_def)
  from addOperationalFrame_twice [OF h e d, of Position Derivative] n h e d show ?thesis
    by (auto simp: PositionAndDerivative_def)
qed

text \<open>
  Claim C7.  With the transport initialised, \<open>addCenterOfMass\<close> returns true for any name,
  handle and mode.  With targets of distinct handles, two registrations of the same handle
  (under any two names) both succeed, the second adds no target, and exactly one target
  has the handle.  Its mode is the OR of the two modes (OR-ed with the mode the handle
  already had, if it was registered before), and each publisher that the mode enables is
  advertised under the name given last.
\<close>

theorem addCenterOfMass_same_handle:
  assumes h: "handle s \<noteq> None"
  shows "(\<exists>s'. addCenterOfMass name c m s = Inr (True, s')) \<and>
         (distinct (map com_handle (coms s)) \<longrightarrow>
           (\<exists>s1 s2 g.
              addCenterOfMass n1 c m1 s = Inr (True, s1) \<and>
              addCenterOfMass n2 c m2 s1 = Inr (True, s2) \<and>
              length (coms s2) = length (coms s1) \<and>
              comTargets c (coms s2) = [g] \<and>
              com_option g =
                (case comTargets c (coms s) of
                   [] \<Rightarrow> m1 OR m2 | c0 # cs \<Rightarrow> com_option c0 OR m1 OR m2) \<and>
              (com_option g AND Position \<noteq> 0 \<longrightarrow>
                 com_pubQ g = advertise (topicPrefix s @ ''com/'' @ n2) queue_size False) \<and>
              (com_option g AND Derivative \<noteq> 0 \<longrightarrow>
                 com_pubV g = advertise (topicPrefix s @ ''velocity/com/'' @ n2) queue_size False)))"
proof (intro conjI impI)
  show "\<exists>s'. addCenterOfMass name c m s = Inr (True, s')"
    using h by (rule addCenterOfMass_succeeds)
next
  assume d: "distinct (map com_handle (coms s))"
  from addCenterOfMass_step [OF h d, of n1 c m1] obtain s1 g1 where
    s1: "addCenterOfMass n1 c m1 s = Inr (True, s1)" "handle s1 = handle s"
      "topicPrefix s1 = topicPrefix s" "distinct (map com_handle (coms s1))"
      "comTargets c (coms s1) = [g1]"
      "com_option g1 = (case comTargets c (coms s) of [] \<Rightarrow> m1 | c0 # cs \<Rightarrow> com_option c0 OR m1)"
    by blast
  from s1(2) h have h1: "handle s1 \<noteq> None" by simp
  from addCenterOfMass_step [OF h1 s1(4), of n2 c m2] obtain s2 g where
    s2: "addCenterOfMass n2 c m2 s1 = Inr (True, s2)"
      "length (coms s2) = (if comTargets c (coms s1) = [] then Suc (length (coms s1)) else length (coms s1))"
      "comTargets c (coms s2) = [g]"
      "com_option g = (case comTargets c (coms s1) of [] \<Rightarrow> m2 | c0 # cs \<Rightarrow> com_option c0 OR m2)"
      "com_option g AND Position \<noteq> 0 \<longrightarrow>
         com_pubQ g = advertise (topicPrefix s1 @ ''com/'' @ n2) queue_size False"
      "com_option g AND Derivative \<noteq> 0 \<longrightarrow>
         com_pubV g = advertise (topicPrefix s1 @ ''velocity/com/'' @ n2) queue_size False"
    by blast
  have opt: "com_option g =
      (case comTargets c (coms s) of [] \<Rightarrow> m1 OR m2 | c0 # cs \<Rightarrow> com_option c0 OR m1 OR m2)"
    using s2(4) s1(5,6) by (simp add: or.assoc split: list.splits)
  have len: "length (coms s2) = length (coms s1)"
    using s2(2) s1(5) by simp
  from s1(1,3) s2(1,3,5,6) opt len
  show "\<exists>s1 s2 g.
      addCenterOfMass n1 c m1 s = Inr (True, s1) \<and>
      addCenterOfMass n2 c m2 s1 = Inr (True, s2) \<and>
      length (coms s2) = length (coms s1) \<and>
      comTargets c (coms s2) = [g] \<and>
      com_option g =
        (case comTargets c (coms s) of [] \<Rightarrow> m1 OR m2 | c0 # cs \<Rightarrow> com_option c0 OR m1 OR m2) \<and>
      (com_option g AND Position \<noteq> 0 \<longrightarrow>
         com_pubQ g = advertise (topicPrefix s @ ''com/'' @ n2) queue_size False) \<and>
      (com_option g AND Derivative \<noteq> 0 \<longrightarrow>
         com_pubV g = advertise (topicPrefix s @ ''velocity/com/'' @ n2) queue_size False)"
    by auto
qed

theorem addCenterOfMass_same_handle_witness:
  "handle demo_ready \<noteq> None \<and> distinct (map com_handle (coms demo_ready)) \<and>
   (\<exists>s'. addCenterOfMass ''arm'' (7::nat) Acceleration demo_ready = Inr (True, s')) \<and>
   (\<exists>s1 s2 g.
      addCenterOfMass ''arm'' (7::nat) Position demo_ready = Inr (True, s1) \<and>
      addCenterOfMass ''whole'' 7 Derivative s1 = Inr (True, s2) \<and>
      length (coms s2) = length (coms s1) \<and>
      comTargets 7 (coms s2) = [g] \<and>
      com_option g = PositionAndDerivative \<and>
      com_pubQ g = Advertised ''/hpp/target/com/whole'' 1000 False \<and>
      com_pubV g = Advertised ''/hpp/target/velocity/com/whole'' 1000 False)"
proof -
  have h: "handle demo_ready \<noteq> None" and d: "distinct (map com_handle (coms demo_ready))"
    and n: "comTargets 7 (coms demo_ready) = []"
    and p: "topicPrefix demo_ready = ''/hpp/target/''"
    by (simp_all add: demo_ready_def comTargets_def)
  have b: "(Position OR Derivative) AND Position \<noteq> 0" "(Position OR Derivative) AND Derivative \<noteq> 0"
    by (simp_all add: Position_def Derivative_def)
  from addCenterOfMass_same_handle [OF h, of "''arm''" 7 Acceleration "''arm''" Position "''whole''" Derivative]
    h d n p b
  show ?thesis
    by (auto simp: PositionAndDerivative_def advertise_def queue_size_def)
qed

text \<open>
  Claim C8.  \<open>addOperationalFrame\<close> throws the logic error "Initialize ROS first" when the
  node handle is null; with a handle and a name the model has no frame for, it returns
  false and the state, with its targets and their publishers, is the one it was given.
\<close>

theorem addOperationalFrame_failures:
  "(handle s = None \<longrightarrow>
      addOperationalFrame dev name m s = Inl (logic_error ''Initialize ROS first'')) \<and>
   (handle s \<noteq> None \<and> \<not> existFrame dev name \<longrightarrow>
      addOperationalFrame dev name m s = Inr (False, s))"
  by (simp add: addOperationalFrame_def)

theorem addOperationalFrame_failures_witness:
  "handle demo_new = None \<and>
   addOperationalFrame demo_device ''gripper'' Position demo_new =
     Inl (logic_error ''Initialize ROS first'') \<and>
   handle demo_ready \<noteq> None \<and> \<not> existFrame demo_device ''antenna'' \<and>
   addOperationalFrame demo_device ''antenna'' Position demo_ready = Inr (False, demo_ready)"
proof -
  have a: "handle demo_new = None"
    by (simp add: demo_new_def)
  have b: "handle demo_ready \<noteq> None \<and> \<not> existFrame demo_device ''antenna''"
    by (simp add: demo_ready_def demo_device_def)
  from addOperationalFrame_failures [of demo_new demo_device "''gripper''" Position]
    addOperationalFrame_failures [of demo_ready demo_device "''antenna''" Position] a b
  show ?thesis
    by blast
qed

text \<open>
  Claim C9.  \<open>resetTopics\<close> empties the lists of frame targets and of centre-of-mass
  targets (their publishers go with them) and leaves both row views, the free-flyer flag
  and the three whole-body publishers as they were.  A \<open>compute\<close> after it does what the
  whole-body part of \<open>compute\<close> did before: it publishes at most three events, each a
  vector on \<open>pubQ\<close>, \<open>pubV\<close> or \<open>pubA\<close>.
\<close>

theorem resetTopics_clears_targets:
  "frames (resetTopics s) = [] \<and> coms (resetTopics s) = [] \<and>
   qView (resetTopics s) = qView s \<and> vView (resetTopics s) = vView s \<and>
   hasFreeflyer (resetTopics s) = hasFreeflyer s \<and>
   pubQ (resetTopics s) = pubQ s \<and> pubV (resetTopics s) = pubV s \<and>
   pubA (resetTopics s) = pubA s \<and>
   compute dev t (resetTopics s) =
     (case sample dev t s of
        Inl e \<Rightarrow> ([], Some e)
      | Inr (q, v, a, d) \<Rightarrow> publishWholeBody dev s q v a d) \<and>
   list_all (wholeBodyEvent s) (fst (compute dev t (resetTopics s))) \<and>
   length (fst (compute dev t (resetTopics s))) \<le> 3"
proof -
  have c: "compute dev t (resetTopics s) =
     (case sample dev t s of
        Inl e \<Rightarrow> ([], Some e)
      | Inr (q, v, a, d) \<Rightarrow> publishWholeBody dev s q v a d)"
    by (simp add: compute_def sample_resetTopics publishWholeBody_resetTopics andThen_empty
        resetTopics_fields split: sum.splits prod.splits)
  have l: "length (fst (publishWholeBody dev s q v a d)) \<le> 3" for q v a d
    by (simp add: publishWholeBody_def split: sum.splits)
  have "list_all (wholeBodyEvent s) (fst (compute dev t (resetTopics s)))"
    unfolding c by (simp add: publishWholeBody_events split: sum.splits prod.splits)
  moreover have "length (fst (compute dev t (resetTopics s))) \<le> 3"
    unfolding c by (simp add: l split: sum.splits prod.splits)
  ultimately show ?thesis
    using c by (simp add: resetTopics_fields)
qed

text \<open>
  Claim C10.  When \<open>compute\<close> succeeds with the free-flyer flag set, the first six scalars
  of the position message are the translation and the Z, Y, X Euler angles of \<open>oMi[1]\<close>,
  the placement of joint 1.  \<open>setJointNames\<close> keeps no trace of the joint that set the
  flag: two lists of names with the same joints that are not floating bases, both with or
  both without a floating base, give the same state.
\<close>

theorem floating_base_read_from_joint_1:
  "(sample dev t s = Inr (q, v, a, d) \<and> compute dev t s = (evs, None) \<and> hasFreeflyer s \<longrightarrow>
      1 < length (oMi dev d) \<and>
      (\<exists>x rest. evs = Publish (pubQ s) (Vector x) # rest \<and>
         take 6 x = vec3 (translation (oMi dev d ! 1)) @
                    vec3 (eulerAngles dev (rotation (oMi dev d ! 1)) 2 1 0))) \<and>
   (list_ex isFloatingBase (map (getJointByName dev) names1) =
      list_ex isFloatingBase (map (getJointByName dev) names2) \<and>
    nonFloating dev names1 = nonFloating dev names2 \<longrightarrow>
      setJointNames dev names1 s = setJointNames dev names2 s)"
proof (intro conjI impI)
  assume "list_ex isFloatingBase (map (getJointByName dev) names1) =
      list_ex isFloatingBase (map (getJointByName dev) names2) \<and>
    nonFloating dev names1 = nonFloating dev names2"
  then show "setJointNames dev names1 s = setJointNames dev names2 s"
    by (simp add: setJointNames_closed)
next
  assume as: "sample dev t s = Inr (q, v, a, d) \<and> compute dev t s = (evs, None) \<and> hasFreeflyer s"
  then have s1: "sample dev t s = Inr (q, v, a, d)" and c0: "compute dev t s = (evs, None)"
    by simp_all
  from s1 c0 have c: "andThen (publishWholeBody dev s q v a d)
            (andThen (publishFrames dev d (frames s)) (publishCOMs dev v d (coms s))) = (evs, None)"
    by (simp add: compute_def)
  from andThen_None [OF c] have n: "snd (publishWholeBody dev s q v a d) = None"
    and e: "evs = fst (publishWholeBody dev s q v a d) @
                  fst (andThen (publishFrames dev d (frames s)) (publishCOMs dev v d (coms s)))"
    by simp_all
  from publishWholeBody_None [OF n] as obtain rq where
    l: "1 < length (oMi dev d)"
    and w: "\<exists>r2. fst (publishWholeBody dev s q v a d) =
             Publish (pubQ s) (Vector (rootJointPosition dev d @ rq)) # r2"
    by auto
  from l show "1 < length (oMi dev d)" .
  from w e show "\<exists>x rest. evs = Publish (pubQ s) (Vector x) # rest \<and>
         take 6 x = vec3 (translation (oMi dev d ! 1)) @
                    vec3 (eulerAngles dev (rotation (oMi dev d ! 1)) 2 1 0)"
    by (auto simp: rootJointPosition_def)
qed

theorem floating_base_read_from_joint_1_witness:
  "sample demo_device (1/2) demo_ready =
     Inr ([1/2, 2, 3, 0, 0, 0, 1, 4, 5, 6, 7, 8, 9, 0, 0, 0, 1],
          [1, 0, 0, 0, 0, 0, 7, 8, 0, 0, 0, 0, 0, 0], replicate 14 0,
          ([1/2, 2, 3, 0, 0, 0, 1, 4, 5, 6, 7, 8, 9, 0, 0, 0, 1],
           [1, 0, 0, 0, 0, 0, 7, 8, 0, 0, 0, 0, 0, 0])) \<and>
   hasFreeflyer demo_ready \<and>
   (\<exists>x rest. compute demo_device (1/2) demo_ready = (Publish (pubQ demo_ready) (Vector x) # rest, None) \<and>
      take 6 x = [1/2, 2, 3, pi, 0, 0]) \<and>
   nonFloating demo_device [''root_joint'', ''shoulder'', ''elbow''] =
     nonFloating demo_device [''shoulder'', ''object/root_joint'', ''elbow''] \<and>
   list_ex isFloatingBase (map (getJointByName demo_device) [''root_joint'', ''shoulder'', ''elbow'']) \<and>
   list_ex isFloatingBase
     (map (getJointByName demo_device) [''shoulder'', ''object/root_joint'', ''elbow'']) \<and>
   setJointNames demo_device [''root_joint'', ''shoulder'', ''elbow''] demo_ready =
     setJointNames demo_device [''shoulder'', ''object/root_joint'', ''elbow''] demo_ready"
proof -
  let ?d = "([1/2, 2, 3, 0, 0, 0, 1, 4, 5, 6, 7, 8, 9, 0, 0, 0, 1],
             [1, 0, 0, 0, 0, 0, 7, 8, 0, 0, 0, 0, 0, 0]) :: demo_data"
  have j: "getJointByName demo_device = demo_joint"
    by (simp add: demo_device_def)
  have f: "hasFreeflyer demo_ready"
    by (simp add: demo_ready_def)
  have r: "vec3 (translation (oMi demo_device ?d ! 1)) @
           vec3 (eulerAngles demo_device (rotation (oMi demo_device ?d ! 1)) 2 1 0) =
           [1/2, 2, 3, pi, 0, 0]"
    by (simp add: demo_device_def demo_origin_def demo_half_turn_def vec3_def)
  have n: "nonFloating demo_device [''root_joint'', ''shoulder'', ''elbow''] =
     nonFloating demo_device [''shoulder'', ''object/root_joint'', ''elbow'']"
    by (simp add: nonFloating_def j demo_joint_def isFloatingBase_def)
  have e1: "list_ex isFloatingBase (map (getJointByName demo_device) [''root_joint'', ''shoulder'', ''elbow''])"
    and e2: "list_ex isFloatingBase
      (map (getJointByName demo_device) [''shoulder'', ''object/root_joint'', ''elbow''])"
    by (simp_all add: j demo_joint_def isFloatingBase_def)
  note t = floating_base_read_from_joint_1 [of demo_device "1/2" demo_ready _ _ _ ?d _
      "[''root_joint'', ''shoulder'', ''elbow'']" "[''shoulder'', ''object/root_joint'', ''elbow'']"]
  from t demo_sample demo_compute f r n e1 e2 show ?thesis
    by (simp add: demo_ready_def)
qed

end
